theory Spec2Isabelle
  imports Complex_Main "HOL-Library.Multiset"
begin

section \<open>JavaScript values used by the dashboard components\<close>

text \<open>
  The components are TypeScript classes. The functions verified here read strings,
  numbers, arrays and \<open>Map\<close> objects. A \<open>string | null\<close> value is a \<open>string option\<close>;
  JavaScript truthiness of such a value (\<open>!s\<close>) is false for \<open>null\<close>, \<open>undefined\<close>
  and the empty string.
\<close>

definition falsy :: "string option \<Rightarrow> bool" where
  "falsy s = (case s of None \<Rightarrow> True | Some v \<Rightarrow> v = [])"

definition str :: "string option \<Rightarrow> string" where
  "str s = (case s of None \<Rightarrow> [] | Some v \<Rightarrow> v)"

text \<open>
  A JavaScript number is either \<open>NaN\<close> or a finite value. Finite values are kept as exact
  rationals: every value the modelled code computes from timestamps is an integer
  number of milliseconds, hours or minutes. Infinities do not arise in the modelled
  functions.
\<close>

datatype number = NaN | Num rat

definition isNaN :: "number \<Rightarrow> bool" where
  "isNaN x = (case x of NaN \<Rightarrow> True | Num _ \<Rightarrow> False)"

definition num_sub :: "number \<Rightarrow> number \<Rightarrow> number" where
  "num_sub x y = (case x of NaN \<Rightarrow> NaN | Num a \<Rightarrow> (case y of NaN \<Rightarrow> NaN | Num b \<Rightarrow> Num (a - b)))"

definition num_add :: "number \<Rightarrow> number \<Rightarrow> number" where
  "num_add x y = (case x of NaN \<Rightarrow> NaN | Num a \<Rightarrow> (case y of NaN \<Rightarrow> NaN | Num b \<Rightarrow> Num (a + b)))"

definition num_mul :: "number \<Rightarrow> number \<Rightarrow> number" where
  "num_mul x y = (case x of NaN \<Rightarrow> NaN | Num a \<Rightarrow> (case y of NaN \<Rightarrow> NaN | Num b \<Rightarrow> Num (a * b)))"

text \<open>Division by one of the non-zero constants 3600000, 60000 and 60.\<close>

definition num_div :: "number \<Rightarrow> rat \<Rightarrow> number" where
  "num_div x d = (case x of NaN \<Rightarrow> NaN | Num a \<Rightarrow> Num (a / d))"

text \<open>The remainder operator \<open>%\<close> truncates towards zero: the result has the sign of the dividend.\<close>

definition num_rem :: "number \<Rightarrow> rat \<Rightarrow> number" where
  "num_rem x d =
     (case x of NaN \<Rightarrow> NaN
      | Num a \<Rightarrow> Num (if 0 \<le> a then a - d * of_int \<lfloor>a / d\<rfloor> else a - d * of_int \<lceil>a / d\<rceil>))"

definition Math_floor :: "number \<Rightarrow> number" where
  "Math_floor x = (case x of NaN \<Rightarrow> NaN | Num a \<Rightarrow> Num (of_int \<lfloor>a\<rfloor>))"

definition Math_min :: "number \<Rightarrow> number \<Rightarrow> number" where
  "Math_min x y = (case x of NaN \<Rightarrow> NaN | Num a \<Rightarrow> (case y of NaN \<Rightarrow> NaN | Num b \<Rightarrow> Num (min a b)))"

text \<open>A comparison with \<open>NaN\<close> is false.\<close>

definition num_lt :: "number \<Rightarrow> number \<Rightarrow> bool" where
  "num_lt x y = (case x of NaN \<Rightarrow> False | Num a \<Rightarrow> (case y of NaN \<Rightarrow> False | Num b \<Rightarrow> a < b))"

definition num_le :: "number \<Rightarrow> number \<Rightarrow> bool" where
  "num_le x y = (case x of NaN \<Rightarrow> False | Num a \<Rightarrow> (case y of NaN \<Rightarrow> False | Num b \<Rightarrow> a \<le> b))"

text \<open>\<open>Math.round\<close> rounds to the nearest integer, a half towards plus infinity.\<close>

definition Math_round :: "rat \<Rightarrow> int" where
  "Math_round x = \<lfloor>x + 1 / 2\<rfloor>"

subsection \<open>Numbers in template strings\<close>

definition digit_char :: "nat \<Rightarrow> char" where
  "digit_char d = ''0123456789'' ! d"

fun nat_toString :: "nat \<Rightarrow> string" where
  "nat_toString n =
     (if n < 10 then [digit_char n] else nat_toString (n div 10) @ [digit_char (n mod 10)])"

definition int_toString :: "int \<Rightarrow> string" where
  "int_toString i = (if i < 0 then CHR ''-'' # nat_toString (nat (- i)) else nat_toString (nat i))"

text \<open>
  The modelled code interpolates whole numbers and \<open>NaN\<close> only (the result of
  \<open>Math.floor\<close>), so the printer covers those.
\<close>

definition number_toString :: "number \<Rightarrow> string" where
  "number_toString x = (case x of NaN \<Rightarrow> ''NaN'' | Num a \<Rightarrow> int_toString \<lfloor>a\<rfloor>)"

subsection \<open>Dates\<close>

text \<open>
  \<open>new Date(s).getTime()\<close> is the number of milliseconds since the epoch, or \<open>NaN\<close> when
  the runtime cannot parse \<open>s\<close>. The parser belongs to the JavaScript runtime, so it is a
  parameter \<open>parseDate\<close> of the functions that construct dates: \<open>None\<close> is an invalid date.
\<close>

definition Date_getTime :: "(string \<Rightarrow> int option) \<Rightarrow> string \<Rightarrow> number" where
  "Date_getTime parseDate s = (case parseDate s of None \<Rightarrow> NaN | Some t \<Rightarrow> Num (of_int t))"

text \<open>Timestamps of the ISO strings used in the examples below.\<close>

definition sampleDates :: "string \<Rightarrow> int option" where
  "sampleDates = map_of
     [(''2024-01-01T09:00:00Z'', 1704099600000),
      (''2024-01-01T12:15:00Z'', 1704111300000),
      (''2024-01-01T17:30:00Z'', 1704130200000),
      (''2024-01-01T19:00:00Z'', 1704135600000)]"

section \<open>Working hours and attendance points\<close>

subsection \<open>AttendanceService (services/attendance.service.ts)\<close>

record WorkingHours =
  hours :: number
  minutes :: number
  total :: number

definition zeroDuration :: WorkingHours where
  "zeroDuration = \<lparr>hours = Num 0, minutes = Num 0, total = Num 0\<rparr>"

definition calculateWorkingHours ::
  "(string \<Rightarrow> int option) \<Rightarrow> string option \<Rightarrow> string option \<Rightarrow> WorkingHours" where
  "calculateWorkingHours parseDate checkIn checkOut =
     (if falsy checkIn \<or> falsy checkOut then zeroDuration
      else
        let start = Date_getTime parseDate (str checkIn);
            end' = Date_getTime parseDate (str checkOut);
            diffMs = num_sub end' start
        in if num_lt diffMs (Num 0) then zeroDuration
           else
             let h = Math_floor (num_div diffMs (1000 * 60 * 60));
                 m = Math_floor (num_div (num_rem diffMs (1000 * 60 * 60)) (1000 * 60));
                 t = num_add h (num_div m 60)
             in \<lparr>hours = h, minutes = m, total = t\<rparr>)"

text \<open>The parameter \<open>pointsPerHour\<close> defaults to 40 when the caller leaves it out.\<close>

definition calculateAttendancePoints ::
  "(string \<Rightarrow> int option) \<Rightarrow> string option \<Rightarrow> string option \<Rightarrow> number option \<Rightarrow> number" where
  "calculateAttendancePoints parseDate checkIn checkOut pointsPerHour =
     (let pph = (case pointsPerHour of None \<Rightarrow> Num 40 | Some p \<Rightarrow> p);
          wh = calculateWorkingHours parseDate checkIn checkOut
      in Math_min (num_mul (hours wh) pph) (Num 320))"

subsection \<open>Attendance component\<close>

definition getWorkingHours ::
  "(string \<Rightarrow> int option) \<Rightarrow> string option \<Rightarrow> string option \<Rightarrow> string" where
  "getWorkingHours parseDate checkIn checkOut =
     (if falsy checkIn \<or> falsy checkOut then ''0H 0M''
      else
        let start = Date_getTime parseDate (str checkIn);
            end' = Date_getTime parseDate (str checkOut)
        in if isNaN start \<or> isNaN end' then ''0H 0M''
           else
             let diffMs = num_sub end' start
             in if num_lt diffMs (Num 0) then ''0H 0M''
                else
                  let diffHours = Math_floor (num_div diffMs (1000 * 60 * 60));
                      diffMinutes =
                        Math_floor (num_div (num_rem diffMs (1000 * 60 * 60)) (1000 * 60))
                  in number_toString diffHours @ ''H '' @ number_toString diffMinutes @ ''M'')"

definition getAttendancePoints ::
  "(string \<Rightarrow> int option) \<Rightarrow> string option \<Rightarrow> string option \<Rightarrow> number" where
  "getAttendancePoints parseDate checkIn checkOut =
     (if falsy checkIn \<or> falsy checkOut then Num 0
      else
        let start = Date_getTime parseDate (str checkIn);
            end' = Date_getTime parseDate (str checkOut)
        in if isNaN start \<or> isNaN end' then Num 0
           else
             let diffMs = num_sub end' start
             in if num_lt diffMs (Num 0) then Num 0
                else
                  let diffHours = Math_floor (num_div diffMs (1000 * 60 * 60));
                      points = num_mul diffHours (Num 40)
                  in Math_min points (Num 320))"

section \<open>Rank labels\<close>

subsection \<open>Ranking component (ranking/ranking.ts)\<close>

definition getRankLabel :: "int \<Rightarrow> string" where
  "getRankLabel rank =
     (if rank = 1 then ''1st''
      else if rank = 2 then ''2nd''
      else if rank = 3 then ''3rd''
      else int_toString rank @ ''th'')"

subsection \<open>Staff profile component\<close>

text \<open>Integer remainder with the sign of the dividend, as \<open>%\<close> computes it.\<close>

definition int_rem :: "int \<Rightarrow> int \<Rightarrow> int" where
  "int_rem a b = (if 0 \<le> a then a mod \<bar>b\<bar> else - ((- a) mod \<bar>b\<bar>))"

definition getDayRankSuffix :: "int option \<Rightarrow> string" where
  "getDayRankSuffix rank =
     (case rank of
        None \<Rightarrow> ''''
      | Some r \<Rightarrow>
          if r = 0 then ''''
          else
            let lastDigit = int_rem r 10;
                lastTwoDigits = int_rem r 100
            in if 11 \<le> lastTwoDigits \<and> lastTwoDigits \<le> 13 then ''th''
               else if lastDigit = 1 then ''st''
               else if lastDigit = 2 then ''nd''
               else if lastDigit = 3 then ''rd''
               else ''th'')"

section \<open>Attendance statistics (Attendance component)\<close>

text \<open>
  Records carry the payload fields that the modelled functions read. Where two
  object types of the source share a key, the later record's field has a short prefix.
  \<open>status\<close> is declared a string, and read with \<open>?.\<close>, so it may be absent.
\<close>

datatype Period = Day | Week | Month | Quarter | Year

record User =
  user_id :: string

record AttendanceRecord =
  date :: string
  checkIn :: "string option"
  checkOut :: "string option"
  status :: "string option"
  isSeated :: bool
  user :: User

record PaginatedData =
  totalPages :: nat
  totalItems :: nat

record AttendanceStats =
  totalPresent :: nat
  totalAbsent :: nat
  totalLate :: nat
  totalLeave :: nat
  totalOnTime :: nat
  totalStaff :: nat

record Attendance =
  attendanceRecords :: "AttendanceRecord list"
  paginationData :: "PaginatedData option"
  attendanceStats :: AttendanceStats
  selectedPeriod :: Period

text \<open>\<open>toLowerCase\<close> on the letters A to Z; every other character is kept.\<close>

definition char_toLowerCase :: "char \<Rightarrow> char" where
  "char_toLowerCase c =
     (case map_of (zip ''ABCDEFGHIJKLMNOPQRSTUVWXYZ'' ''abcdefghijklmnopqrstuvwxyz'') c of
        None \<Rightarrow> c
      | Some l \<Rightarrow> l)"

definition toLowerCase :: "string \<Rightarrow> string" where
  "toLowerCase s = map char_toLowerCase s"

definition zeroStats :: AttendanceStats where
  "zeroStats = \<lparr>totalPresent = 0, totalAbsent = 0, totalLate = 0, totalLeave = 0,
                 totalOnTime = 0, totalStaff = 0\<rparr>"

text \<open>The key the \<open>switch\<close> branches on: \<open>record.status?.toLowerCase() || 'absent'\<close>.\<close>

definition statusKey :: "AttendanceRecord \<Rightarrow> string" where
  "statusKey r =
     (let lowered = map_option toLowerCase (status r)
      in if falsy lowered then ''absent'' else str lowered)"

text \<open>The body of the \<open>forEach\<close> over the records.\<close>

definition countStatus :: "AttendanceStats \<Rightarrow> AttendanceRecord \<Rightarrow> AttendanceStats" where
  "countStatus stats r =
     (let k = statusKey r
      in if k = ''present'' then stats\<lparr>totalPresent := totalPresent stats + 1\<rparr>
         else if k = ''absent'' then stats\<lparr>totalAbsent := totalAbsent stats + 1\<rparr>
         else if k = ''late'' then stats\<lparr>totalLate := totalLate stats + 1\<rparr>
         else if k = ''leave'' then stats\<lparr>totalLeave := totalLeave stats + 1\<rparr>
         else if k = ''ontime'' then stats\<lparr>totalOnTime := totalOnTime stats + 1\<rparr>
         else stats)"

text \<open>
  \<open>new Set(ids).size\<close> is the number of distinct ids.
  \<open>this.paginationData?.totalItems || this.attendanceRecords.length\<close> takes the record
  count when there is no pagination data or its \<open>totalItems\<close> is 0.
\<close>

definition calculateStats :: "Attendance \<Rightarrow> Attendance" where
  "calculateStats this =
     (let counted = foldl countStatus zeroStats (attendanceRecords this);
          staff =
            (if selectedPeriod this = Day
             then length (remdups (map (\<lambda>r. user_id (user r)) (attendanceRecords this)))
             else (case paginationData this of
                     None \<Rightarrow> length (attendanceRecords this)
                   | Some p \<Rightarrow>
                       if totalItems p = 0 then length (attendanceRecords this)
                       else totalItems p))
      in this\<lparr>attendanceStats := counted\<lparr>totalStaff := staff\<rparr>\<rparr>)"

text \<open>The five status counters of a statistics object, in the order of the \<open>switch\<close>.\<close>

definition statusCounters :: "AttendanceStats \<Rightarrow> nat \<times> nat \<times> nat \<times> nat \<times> nat" where
  "statusCounters st =
     (totalPresent st, totalAbsent st, totalLate st, totalLeave st, totalOnTime st)"

text \<open>Example data: a record of user \<open>uid\<close> with a given status, and a component holding records.\<close>

definition mkRecord :: "string \<Rightarrow> string option \<Rightarrow> AttendanceRecord" where
  "mkRecord uid st =
     \<lparr>date = ''2024-01-01'', checkIn = None, checkOut = None, status = st,
      isSeated = False, user = \<lparr>user_id = uid\<rparr>\<rparr>"

definition mkAttendance ::
  "AttendanceRecord list \<Rightarrow> PaginatedData option \<Rightarrow> Period \<Rightarrow> Attendance" where
  "mkAttendance recs pd period =
     \<lparr>attendanceRecords = recs, paginationData = pd, attendanceStats = zeroStats,
      selectedPeriod = period\<rparr>"

section \<open>Employee ranking\<close>

text \<open>An entry of the \<open>/employee/rank\<close> payload.\<close>

record Employee =
  emp_id :: string
  firstName :: string
  lastName :: string
  avatarUrl :: "string option"
  employeeId :: string
  job :: "string option"
  department :: "string option"
  monthlyPoint :: "rat option"
  monthlyRank :: int
  dailyPoint :: "rat option"
  dailyRank :: "int option"
  dailyAttendancePoint :: "rat option"
  monthlyAttendancePoint :: "rat option"

text \<open>The generic response envelope \<open>ApiResponse<T>\<close>; \<open>data\<close> may be null.\<close>

record 'a ApiResponse =
  ok :: bool
  data :: "'a option"

text \<open>An HTTP observable either fails or delivers one response.\<close>

datatype 'a HttpResult = HttpFailure | HttpSuccess 'a

subsection \<open>Arrays as objects\<close>

text \<open>
  An array is an object: two variables may hold the same array, \<open>sort\<close> reorders the
  array it is called on and returns that same array, and \<open>slice\<close> returns a new one.
  The store maps references to array contents; \<open>fresh\<close> is the next unused reference.

  \<open>sort\<close> with the comparator \<open>(a, b) => a.monthlyRank - b.monthlyRank\<close> is a stable
  sort, ascending in \<open>monthlyRank\<close>.
\<close>

type_synonym ref = nat

record Heap =
  arrays :: "ref \<Rightarrow> Employee list option"
  fresh :: ref

definition Array_sort :: "Heap \<Rightarrow> ref \<Rightarrow> Heap \<times> ref" where
  "Array_sort h r =
     (case arrays h r of
        None \<Rightarrow> (h, r)
      | Some xs \<Rightarrow> (h\<lparr>arrays := (arrays h)(r \<mapsto> sort_key monthlyRank xs)\<rparr>, r))"

definition Array_slice :: "Heap \<Rightarrow> ref \<Rightarrow> nat \<Rightarrow> nat \<Rightarrow> Heap \<times> ref" where
  "Array_slice h r i j =
     (let xs = (case arrays h r of None \<Rightarrow> [] | Some ys \<Rightarrow> ys);
          r' = fresh h
      in (h\<lparr>arrays := (arrays h)(r' \<mapsto> take (j - i) (drop i xs)), fresh := Suc r'\<rparr>, r'))"

subsection \<open>Ranking component (ranking/ranking.ts)\<close>

record RankingPage =
  pageData :: ref

record Ranking =
  employees :: ref
  topThreeEmployees :: ref
  isLoading :: bool
  errorMessage :: string

text \<open>The \<open>next\<close> handler of the request that \<open>loadEmployeeRanking\<close> issues.\<close>

definition loadEmployeeRanking_next ::
  "Heap \<times> Ranking \<Rightarrow> RankingPage ApiResponse \<Rightarrow> Heap \<times> Ranking" where
  "loadEmployeeRanking_next st response =
     (let (h, this) = st;
          (h', this') =
            (case data response of
               None \<Rightarrow> (h, this)
             | Some d \<Rightarrow>
                 if ok response then
                   let this1 = this\<lparr>employees := pageData d\<rparr>;
                       (h1, sorted_ref) = Array_sort h (employees this1);
                       (h2, top) = Array_slice h1 sorted_ref 0 3
                   in (h2, this1\<lparr>topThreeEmployees := top\<rparr>)
                 else (h, this))
      in (h', this'\<lparr>isLoading := False\<rparr>))"

subsection \<open>Admin dashboard (admin-dashboard/admin-dashboard.ts)\<close>

text \<open>
  The rank payload is either paginated (\<open>data.pageData\<close> is an array), a plain array,
  or some other object.
\<close>

datatype RankData = Paginated "Employee list" | Direct "Employee list" | Neither

record EmployeeRank =
  er_id :: string
  er_firstName :: string
  er_lastName :: string
  er_avatarUrl :: "string option"
  er_employeeId :: string
  er_job :: string
  er_monthlyPoint :: int
  er_monthlyRank :: int
  er_dailyPoint :: rat
  er_dailyRank :: int
  er_dailyAttendancePoint :: rat
  er_monthlyAttendancePoint :: rat

definition orZero :: "'v::zero option \<Rightarrow> 'v" where
  "orZero x = (case x of None \<Rightarrow> 0 | Some v \<Rightarrow> v)"

definition toEmployeeRank :: "Employee \<Rightarrow> EmployeeRank" where
  "toEmployeeRank emp =
     \<lparr>er_id = emp_id emp,
      er_firstName = firstName emp,
      er_lastName = lastName emp,
      er_avatarUrl = avatarUrl emp,
      er_employeeId = employeeId emp,
      er_job = (if falsy (job emp) then ''Employee'' else str (job emp)),
      er_monthlyPoint = orZero (map_option Math_round (monthlyPoint emp)),
      er_monthlyRank = monthlyRank emp,
      er_dailyPoint = orZero (dailyPoint emp),
      er_dailyRank = orZero (dailyRank emp),
      er_dailyAttendancePoint = orZero (dailyAttendancePoint emp),
      er_monthlyAttendancePoint = orZero (monthlyAttendancePoint emp)\<rparr>"

text \<open>
  \<open>loadEmployeeRanks\<close>: the local array is sorted and sliced; only the mapped copy
  leaves the function, so the arrays are plain lists here.
\<close>

definition loadEmployeeRanks :: "RankData ApiResponse HttpResult \<Rightarrow> EmployeeRank list" where
  "loadEmployeeRanks result =
     (case result of
        HttpFailure \<Rightarrow> []
      | HttpSuccess response \<Rightarrow>
          (case data response of
             None \<Rightarrow> []
           | Some d \<Rightarrow>
               if ok response then
                 let employees =
                       (case d of Paginated xs \<Rightarrow> xs | Direct xs \<Rightarrow> xs | Neither \<Rightarrow> [])
                 in map toEmployeeRank (take 3 (sort_key monthlyRank employees))
               else []))"

text \<open>Example data: an employee with a given id, department, monthly point and monthly rank.\<close>

definition mkEmployee :: "string \<Rightarrow> string option \<Rightarrow> rat option \<Rightarrow> int \<Rightarrow> Employee" where
  "mkEmployee eid dept pts rnk =
     \<lparr>emp_id = eid, firstName = ''First'', lastName = ''Last'', avatarUrl = None,
      employeeId = eid, job = None, department = dept, monthlyPoint = pts,
      monthlyRank = rnk, dailyPoint = None, dailyRank = None,
      dailyAttendancePoint = None, monthlyAttendancePoint = None\<rparr>"

text \<open>
  Example data: three employees received in the rank order 2, 1, 3, and a Ranking
  component whose response array is stored at reference 2 (references 0 and 1 hold
  the component's two initial empty arrays).
\<close>

definition exampleRanks :: "Employee list" where
  "exampleRanks =
     [mkEmployee ''a'' None None 2, mkEmployee ''b'' None None 1, mkEmployee ''c'' None None 3]"

definition exampleHeap :: Heap where
  "exampleHeap = \<lparr>arrays = [0 \<mapsto> [], 1 \<mapsto> [], 2 \<mapsto> exampleRanks], fresh = 3\<rparr>"

definition initialRanking :: Ranking where
  "initialRanking =
     \<lparr>employees = 0, topThreeEmployees = 1, isLoading = True, errorMessage = []\<rparr>"

section \<open>Best department (admin dashboard)\<close>

record Department =
  dept_id :: string
  name :: string

record AdminDashboard =
  departments :: "Department list"
  bestDepartment :: string
  bestDepartmentPoints :: int

subsection \<open>The Map object\<close>

text \<open>
  A \<open>Map\<close> keeps its keys in insertion order: \<open>set\<close> on a key that is present replaces
  the value in place, on a new key it appends the entry; \<open>forEach\<close> visits the entries
  in that order.
\<close>

fun Map_set :: "('k \<times> 'v) list \<Rightarrow> 'k \<Rightarrow> 'v \<Rightarrow> ('k \<times> 'v) list" where
  "Map_set [] k v = [(k, v)]"
| "Map_set ((k', v') # m) k v = (if k' = k then (k, v) # m else (k', v') # Map_set m k v)"

definition Map_get :: "('k \<times> 'v) list \<Rightarrow> 'k \<Rightarrow> 'v option" where
  "Map_get m k = map_of m k"

subsection \<open>calculateBestDepartment\<close>

text \<open>Initialize all departments with 0 points.\<close>

definition initDeptPoints :: "Department list \<Rightarrow> (string \<times> rat) list" where
  "initDeptPoints depts = foldl (\<lambda>m dept. Map_set m (name dept) 0) [] depts"

text \<open>
  Points are JavaScript numbers, that is doubles. A finite double is a rational, and
  comparing two doubles compares these rationals, but the sum of two doubles is rounded
  to a double again. The addition belongs to the runtime, so it is the parameter \<open>add\<close>
  of the functions that add points; no property of it is assumed. On whole numbers of
  moderate size, as in the examples below, it is the exact sum. A sum that leaves the
  range of the finite doubles is not modelled.
\<close>

text \<open>Add up employee points per department: the body of the loop over the employees.\<close>

definition addEmployeePoints ::
  "(rat \<Rightarrow> rat \<Rightarrow> rat) \<Rightarrow> (string \<times> rat) list \<Rightarrow> Employee \<Rightarrow> (string \<times> rat) list" where
  "addEmployeePoints add deptPoints emp =
     (if falsy (department emp) then deptPoints
      else
        let current = orZero (Map_get deptPoints (str (department emp)));
            points = orZero (monthlyPoint emp)
        in Map_set deptPoints (str (department emp)) (add current points))"

definition deptPointsOf ::
  "(rat \<Rightarrow> rat \<Rightarrow> rat) \<Rightarrow> Department list \<Rightarrow> Employee list \<Rightarrow> (string \<times> rat) list" where
  "deptPointsOf add depts rankedEmployees =
     foldl (addEmployeePoints add) (initDeptPoints depts) rankedEmployees"

text \<open>The loop that keeps the entry with the greatest value seen so far.\<close>

definition pickGreater :: "'v::linorder \<times> string \<Rightarrow> string \<times> 'v \<Rightarrow> 'v \<times> string" where
  "pickGreater acc entry =
     (let (maxSoFar, bestDept) = acc;
          (dept, v) = entry
      in if v > maxSoFar then (v, dept) else (maxSoFar, bestDept))"

text \<open>The head count per department name, for the fallback.\<close>

definition countEmployee :: "(string \<times> nat) list \<Rightarrow> Employee \<Rightarrow> (string \<times> nat) list" where
  "countEmployee deptEmployeeCounts emp =
     (if falsy (department emp) then deptEmployeeCounts
      else
        let current = orZero (Map_get deptEmployeeCounts (str (department emp)))
        in Map_set deptEmployeeCounts (str (department emp)) (current + 1))"

definition deptEmployeeCountsOf :: "Employee list \<Rightarrow> (string \<times> nat) list" where
  "deptEmployeeCountsOf rankedEmployees = foldl countEmployee [] rankedEmployees"

definition calculateBestDepartment ::
  "(rat \<Rightarrow> rat \<Rightarrow> rat) \<Rightarrow> AdminDashboard \<Rightarrow> Employee list \<Rightarrow> AdminDashboard" where
  "calculateBestDepartment add this rankedEmployees =
     (if rankedEmployees = [] \<or> departments this = []
      then this\<lparr>bestDepartment := ''N/A'', bestDepartmentPoints := 0\<rparr>
      else
        let deptPoints = deptPointsOf add (departments this) rankedEmployees;
            (maxPoints, bestDept) = foldl pickGreater (0, []) deptPoints;
            bestDept' =
              (if maxPoints = 0 \<and> departments this \<noteq> []
               then snd (foldl pickGreater (0, bestDept) (deptEmployeeCountsOf rankedEmployees))
               else bestDept)
        in this\<lparr>bestDepartment := (if bestDept' = [] then ''N/A'' else bestDept'),
                bestDepartmentPoints := Math_round maxPoints\<rparr>)"

subsection \<open>The totals and head counts that the aggregation is compared with\<close>

text \<open>
  The sum of \<open>monthlyPoint\<close> (0 when absent) over the employees whose department field
  is the non-empty name \<open>d\<close>, added up from 0 in the order of the employee list; and the
  number of employees whose department field is \<open>d\<close>.
\<close>

definition sumOfMonthlyPoints :: "(rat \<Rightarrow> rat \<Rightarrow> rat) \<Rightarrow> Employee list \<Rightarrow> string \<Rightarrow> rat" where
  "sumOfMonthlyPoints add emps d =
     foldl add 0
       (map (\<lambda>e. orZero (monthlyPoint e))
          (filter (\<lambda>e. department e = Some d \<and> d \<noteq> []) emps))"

definition headcount :: "Employee list \<Rightarrow> string \<Rightarrow> nat" where
  "headcount emps d = length (filter (\<lambda>e. department e = Some d) emps)"

text \<open>
  The names that have a running total: the names of the department list, and the
  non-empty department names carried by employees.
\<close>

definition hasTotal :: "Department list \<Rightarrow> Employee list \<Rightarrow> string \<Rightarrow> bool" where
  "hasTotal depts emps d =
     (d \<in> name ` set depts \<or> (d \<noteq> [] \<and> Some d \<in> department ` set emps))"

text \<open>Example data: a dashboard in its initial state that has loaded the named departments.\<close>

definition mkDashboard :: "string list \<Rightarrow> AdminDashboard" where
  "mkDashboard names =
     \<lparr>departments = map (\<lambda>n. \<lparr>dept_id = n, name = n\<rparr>) names,
      bestDepartment = [], bestDepartmentPoints = 0\<rparr>"

text \<open>
  Example data: three Engineering employees with 500, 0 and 0 points and one Sales
  employee with 100 points; and three employees without points, one in Support and
  two in Design.
\<close>

definition scenarioPoints :: "Employee list" where
  "scenarioPoints =
     [mkEmployee ''e1'' (Some ''Engineering'') (Some 500) 1,
      mkEmployee ''e2'' (Some ''Engineering'') (Some 0) 2,
      mkEmployee ''e3'' (Some ''Engineering'') (Some 0) 3,
      mkEmployee ''e4'' (Some ''Sales'') (Some 100) 5]"

definition scenarioHeadcount :: "Employee list" where
  "scenarioHeadcount =
     [mkEmployee ''e1'' (Some ''Support'') (Some 0) 1,
      mkEmployee ''e2'' (Some ''Design'') (Some 0) 2,
      mkEmployee ''e3'' (Some ''Design'') None 3]"

text \<open>
  Example data: a Sales employee with 50 points and an employee of the unlisted
  department Ghost with 100 points; two employees of department A with -5 and 0 points
  and one of department B with 0 points; and two employees without a department.
\<close>

definition scenarioUnlisted :: "Employee list" where
  "scenarioUnlisted =
     [mkEmployee ''e1'' (Some ''Sales'') (Some 50) 1,
      mkEmployee ''e2'' (Some ''Ghost'') (Some 100) 2]"

definition scenarioNegative :: "Employee list" where
  "scenarioNegative =
     [mkEmployee ''e1'' (Some ''A'') (Some (- 5)) 1,
      mkEmployee ''e2'' (Some ''A'') (Some 0) 2,
      mkEmployee ''e3'' (Some ''B'') (Some 0) 3]"

definition scenarioNoDepartment :: "Employee list" where
  "scenarioNoDepartment =
     [mkEmployee ''e1'' None (Some 0) 1, mkEmployee ''e2'' None (Some 0) 2]"

section \<open>Task statistics (admin dashboard)\<close>

text \<open>
  The task statistics object as it arrives: any key may be missing (\<open>undefined\<close>),
  so every field is optional. The empty object has no field at all.
\<close>

record StatusCounts =
  InProgress :: "int option"
  Blocked :: "int option"
  Completed :: "int option"
  UnderReview :: "int option"
  NotStarted :: "int option"
  Overdue :: "int option"

record PriorityCounts =
  Critical :: "int option"
  High :: "int option"
  Low :: "int option"
  Medium :: "int option"

record TaskStatsGroups =
  ts_status :: "StatusCounts option"
  ts_priority :: "PriorityCounts option"

record TaskStats =
  ts_total :: "int option"
  ts_stats :: "TaskStatsGroups option"

definition emptyObject :: TaskStats where
  "emptyObject = \<lparr>ts_total = None, ts_stats = None\<rparr>"

definition zeroTaskStats :: TaskStats where
  "zeroTaskStats =
     \<lparr>ts_total = Some 0,
      ts_stats = Some
        \<lparr>ts_status = Some \<lparr>InProgress = Some 0, Blocked = Some 0, Completed = Some 0,
                           UnderReview = Some 0, NotStarted = Some 0, Overdue = Some 0\<rparr>,
         ts_priority = Some \<lparr>Critical = Some 0, High = Some 0, Low = Some 0,
                             Medium = Some 0\<rparr>\<rparr>\<rparr>"

text \<open>\<open>loadTaskStats\<close>: the \<open>map\<close> and \<open>catchError\<close> stages of the request pipeline.\<close>

definition loadTaskStats :: "TaskStats ApiResponse HttpResult \<Rightarrow> TaskStats" where
  "loadTaskStats result =
     (case result of
        HttpFailure \<Rightarrow> zeroTaskStats
      | HttpSuccess response \<Rightarrow>
          (case data response of
             None \<Rightarrow> zeroTaskStats
           | Some d \<Rightarrow> if ok response then d else zeroTaskStats))"

text \<open>The ten sub-counts of a task statistics object, \<open>None\<close> where a key is missing.\<close>

definition statusOf :: "TaskStats \<Rightarrow> (StatusCounts \<Rightarrow> int option) \<Rightarrow> int option" where
  "statusOf t key = Option.bind (Option.bind (ts_stats t) ts_status) key"

definition priorityOf :: "TaskStats \<Rightarrow> (PriorityCounts \<Rightarrow> int option) \<Rightarrow> int option" where
  "priorityOf t key = Option.bind (Option.bind (ts_stats t) ts_priority) key"

definition subCounts :: "TaskStats \<Rightarrow> int option list" where
  "subCounts t =
     [statusOf t InProgress, statusOf t Blocked, statusOf t Completed,
      statusOf t UnderReview, statusOf t NotStarted, statusOf t Overdue,
      priorityOf t Critical, priorityOf t High, priorityOf t Low, priorityOf t Medium]"

section \<open>Properties\<close>

lemma falsy_Some [simp]: "falsy (Some s) = (s = [])"
  by (simp add: falsy_def)

lemma falsy_None [simp]: "falsy None"
  by (simp add: falsy_def)

lemma str_Some [simp]: "str (Some s) = s"
  by (simp add: str_def)

subsection \<open>Working hours\<close>

lemma floor_hours: "\<lfloor>(of_int d :: rat) / 3600000\<rfloor> = d div 3600000"
  using floor_divide_of_int_eq[of d 3600000, where ?'a = rat] by simp

lemma getWorkingHours_missing:
  "falsy ci \<or> falsy co \<Longrightarrow> getWorkingHours parseDate ci co = ''0H 0M''"
  by (simp add: getWorkingHours_def)

lemma getWorkingHours_unparseable:
  "parseDate ci = None \<or> parseDate co = None \<Longrightarrow>
   getWorkingHours parseDate (Some ci) (Some co) = ''0H 0M''"
  by (auto simp add: getWorkingHours_def Date_getTime_def isNaN_def)

lemma getWorkingHours_reversed:
  "parseDate ci = Some a \<Longrightarrow> parseDate co = Some b \<Longrightarrow> b < a \<Longrightarrow>
   getWorkingHours parseDate (Some ci) (Some co) = ''0H 0M''"
  by (simp add: getWorkingHours_def Date_getTime_def isNaN_def num_sub_def num_lt_def)

lemma calculateWorkingHours_missing:
  "falsy ci \<or> falsy co \<Longrightarrow>
   calculateWorkingHours parseDate ci co = \<lparr>hours = Num 0, minutes = Num 0, total = Num 0\<rparr>"
  by (simp add: calculateWorkingHours_def zeroDuration_def)

lemma calculateWorkingHours_reversed:
  "parseDate ci = Some a \<Longrightarrow> parseDate co = Some b \<Longrightarrow> b < a \<Longrightarrow>
   calculateWorkingHours parseDate (Some ci) (Some co) = \<lparr>hours = Num 0, minutes = Num 0, total = Num 0\<rparr>"
  by (simp add: calculateWorkingHours_def zeroDuration_def Date_getTime_def num_sub_def num_lt_def)

lemma calculateWorkingHours_unparseable:
  assumes "parseDate ci = None \<or> parseDate co = None" "ci \<noteq> []" "co \<noteq> []"
  shows "calculateWorkingHours parseDate (Some ci) (Some co)
         = \<lparr>hours = NaN, minutes = NaN, total = NaN\<rparr>"
  using assms
  by (auto simp add: calculateWorkingHours_def Date_getTime_def num_sub_def num_lt_def
      num_div_def Math_floor_def num_rem_def num_add_def split: option.splits)

text \<open>
  C2. The service's \<open>calculateWorkingHours\<close> has no validity check on the parsed dates:
  for a check-in string that does not parse, every field of the result is \<open>NaN\<close>,
  not the zero duration.
\<close>

theorem calculateWorkingHours_invalid_date_NaN:
  "calculateWorkingHours sampleDates (Some ''not-a-date'') (Some ''2024-01-01T17:30:00Z'')
   = \<lparr>hours = NaN, minutes = NaN, total = NaN\<rparr>"
  by (simp add: calculateWorkingHours_def sampleDates_def Date_getTime_def num_sub_def
      num_lt_def num_div_def Math_floor_def num_rem_def num_add_def)

subsection \<open>Attendance points\<close>

lemma getAttendancePoints_valid:
  assumes "ci \<noteq> []" "co \<noteq> []" "parseDate ci = Some a" "parseDate co = Some b" "a \<le> b"
  shows "getAttendancePoints parseDate (Some ci) (Some co)
         = Num (of_int (min (((b - a) div 3600000) * 40) 320))"
  using assms
  by (simp add: getAttendancePoints_def Date_getTime_def isNaN_def num_sub_def num_lt_def
      num_div_def Math_floor_def num_mul_def Math_min_def floor_hours Let_def
      flip: of_int_diff)

lemma calculateWorkingHours_hours:
  assumes "ci \<noteq> []" "co \<noteq> []" "parseDate ci = Some a" "parseDate co = Some b" "a \<le> b"
  shows "hours (calculateWorkingHours parseDate (Some ci) (Some co))
         = Num (of_int ((b - a) div 3600000))"
  using assms
  by (simp add: calculateWorkingHours_def Date_getTime_def num_sub_def num_lt_def
      num_div_def Math_floor_def floor_hours Let_def flip: of_int_diff)

lemma calculateAttendancePoints_valid:
  assumes "ci \<noteq> []" "co \<noteq> []" "parseDate ci = Some a" "parseDate co = Some b" "a \<le> b"
  shows "calculateAttendancePoints parseDate (Some ci) (Some co) None
         = Num (of_int (min (((b - a) div 3600000) * 40) 320))"
  using calculateWorkingHours_hours[OF assms]
  by (simp add: calculateAttendancePoints_def num_mul_def Math_min_def Let_def)

text \<open>
  C6. For a valid check-in/check-out pair (both parse, check-out not before check-in)
  the attendance points are the floored hours times 40, capped at 320, in the component
  and in the service alike; they do not decrease when the floored hours grow, and they
  are exactly 320 from 8 floored hours on.
\<close>

theorem attendance_points_floor_clamp:
  assumes v: "ci \<noteq> []" "co \<noteq> []" "parseDate ci = Some a" "parseDate co = Some b" "a \<le> b"
    and v': "ci' \<noteq> []" "co' \<noteq> []" "parseDate ci' = Some a'" "parseDate co' = Some b'" "a' \<le> b'"
    and le: "(b - a) div 3600000 \<le> (b' - a') div 3600000"
  shows "getAttendancePoints parseDate (Some ci) (Some co)
           = Num (of_int (min (((b - a) div 3600000) * 40) 320))
       \<and> calculateAttendancePoints parseDate (Some ci) (Some co) None
           = Num (of_int (min (((b - a) div 3600000) * 40) 320))
       \<and> num_le (getAttendancePoints parseDate (Some ci) (Some co))
                (getAttendancePoints parseDate (Some ci') (Some co'))
       \<and> num_le (calculateAttendancePoints parseDate (Some ci) (Some co) None)
                (calculateAttendancePoints parseDate (Some ci') (Some co') None)
       \<and> (8 \<le> (b - a) div 3600000 \<longrightarrow>
            getAttendancePoints parseDate (Some ci) (Some co) = Num 320
          \<and> calculateAttendancePoints parseDate (Some ci) (Some co) None = Num 320)"
proof -
  let ?h = "(b - a) div 3600000" and ?h' = "(b' - a') div 3600000"
  have mono: "min (?h * 40) 320 \<le> min (?h' * 40) 320"
    using le by simp
  have cap: "8 \<le> ?h \<Longrightarrow> min (?h * 40) 320 = 320"
    by simp
  show ?thesis
    using mono cap
    by (simp add: getAttendancePoints_valid[OF v] getAttendancePoints_valid[OF v']
        calculateAttendancePoints_valid[OF v] calculateAttendancePoints_valid[OF v']
        num_le_def)
qed

theorem attendance_points_floor_clamp_witness:
  "sampleDates ''2024-01-01T09:00:00Z'' = Some 1704099600000
   \<and> sampleDates ''2024-01-01T12:15:00Z'' = Some 1704111300000
   \<and> sampleDates ''2024-01-01T19:00:00Z'' = Some 1704135600000
   \<and> getAttendancePoints sampleDates (Some ''2024-01-01T09:00:00Z'')
        (Some ''2024-01-01T12:15:00Z'') = Num 120
   \<and> calculateAttendancePoints sampleDates (Some ''2024-01-01T09:00:00Z'')
        (Some ''2024-01-01T12:15:00Z'') None = Num 120
   \<and> num_le (getAttendancePoints sampleDates (Some ''2024-01-01T09:00:00Z'')
               (Some ''2024-01-01T12:15:00Z''))
            (getAttendancePoints sampleDates (Some ''2024-01-01T09:00:00Z'')
               (Some ''2024-01-01T19:00:00Z''))"
proof -
  have a: "sampleDates ''2024-01-01T09:00:00Z'' = Some 1704099600000"
    and b: "sampleDates ''2024-01-01T12:15:00Z'' = Some 1704111300000"
    and c: "sampleDates ''2024-01-01T19:00:00Z'' = Some 1704135600000"
    by (simp_all add: sampleDates_def)
  have ne: "''2024-01-01T09:00:00Z'' \<noteq> []" "''2024-01-01T12:15:00Z'' \<noteq> []"
    "''2024-01-01T19:00:00Z'' \<noteq> []"
    by simp_all
  have le: "(1704099600000::int) \<le> 1704111300000" "(1704099600000::int) \<le> 1704135600000"
    "(1704111300000 - 1704099600000) div 3600000
       \<le> (1704135600000 - 1704099600000) div (3600000::int)"
    by simp_all
  note w = attendance_points_floor_clamp
    [OF ne(1) ne(2) a b le(1) ne(1) ne(3) a c le(2) le(3)]
  have "getAttendancePoints sampleDates (Some ''2024-01-01T09:00:00Z'')
          (Some ''2024-01-01T12:15:00Z'') = Num 120"
    using w [THEN conjunct1] by simp
  moreover have "calculateAttendancePoints sampleDates (Some ''2024-01-01T09:00:00Z'')
          (Some ''2024-01-01T12:15:00Z'') None = Num 120"
    using w [THEN conjunct2, THEN conjunct1] by simp
  moreover note w [THEN conjunct2, THEN conjunct2, THEN conjunct1]
  ultimately show ?thesis
    using a b c by blast
qed

subsection \<open>Rank labels\<close>

lemma getRankLabel_first_three:
  "getRankLabel 1 = ''1st'' \<and> getRankLabel 2 = ''2nd'' \<and> getRankLabel 3 = ''3rd''"
  by (simp add: getRankLabel_def)

lemma getRankLabel_11: "getRankLabel 11 = ''11th''"
  by (simp add: getRankLabel_def int_toString_def digit_char_def)

lemma getDayRankSuffix_english:
  assumes "0 < r"
  shows "getDayRankSuffix (Some r) =
           (if r mod 100 \<in> {11, 12, 13} then ''th''
            else if r mod 10 = 1 then ''st''
            else if r mod 10 = 2 then ''nd''
            else if r mod 10 = 3 then ''rd''
            else ''th'')"
proof -
  have "11 \<le> r mod 100 \<and> r mod 100 \<le> 13 \<longleftrightarrow> r mod 100 \<in> {11, 12, 13}"
    by auto
  then show ?thesis
    using assms by (simp add: getDayRankSuffix_def int_rem_def Let_def)
qed

lemma getDayRankSuffix_21: "getDayRankSuffix (Some 21) = ''st''"
  by (simp add: getDayRankSuffix_def int_rem_def)

text \<open>
  C8. \<open>getRankLabel\<close> labels every rank other than 1, 2 and 3 with the suffix "th":
  rank 21 is labelled "21th".
\<close>

theorem getRankLabel_21: "getRankLabel 21 = ''21th''"
  by (simp add: getRankLabel_def int_toString_def digit_char_def)

subsection \<open>Attendance statistics\<close>

lemma countStatus_totalStaff [simp]: "totalStaff (countStatus st r) = totalStaff st"
  by (simp add: countStatus_def Let_def)

lemma foldl_countStatus_counters:
  "statusCounters (foldl countStatus st rs) =
     (totalPresent st + length (filter (\<lambda>r. statusKey r = ''present'') rs),
      totalAbsent st + length (filter (\<lambda>r. statusKey r = ''absent'') rs),
      totalLate st + length (filter (\<lambda>r. statusKey r = ''late'') rs),
      totalLeave st + length (filter (\<lambda>r. statusKey r = ''leave'') rs),
      totalOnTime st + length (filter (\<lambda>r. statusKey r = ''ontime'') rs))"
proof (induction rs arbitrary: st)
  case Nil
  show ?case by (simp add: statusCounters_def)
next
  case (Cons r rs)
  show ?case
    unfolding foldl_Cons Cons.IH
    by (simp add: countStatus_def Let_def)
qed

lemma calculateStats_counters:
  "statusCounters (attendanceStats (calculateStats this)) =
     (length (filter (\<lambda>r. statusKey r = ''present'') (attendanceRecords this)),
      length (filter (\<lambda>r. statusKey r = ''absent'') (attendanceRecords this)),
      length (filter (\<lambda>r. statusKey r = ''late'') (attendanceRecords this)),
      length (filter (\<lambda>r. statusKey r = ''leave'') (attendanceRecords this)),
      length (filter (\<lambda>r. statusKey r = ''ontime'') (attendanceRecords this)))"
proof -
  have "statusCounters (attendanceStats (calculateStats this))
        = statusCounters (foldl countStatus zeroStats (attendanceRecords this))"
    by (simp add: calculateStats_def Let_def statusCounters_def)
  then show ?thesis
    by (simp add: foldl_countStatus_counters zeroStats_def)
qed

lemma toLowerCase_Nil_iff [simp]: "toLowerCase s = [] \<longleftrightarrow> s = []"
  by (simp add: toLowerCase_def)

lemma statusKey_missing: "falsy (status r) \<Longrightarrow> statusKey r = ''absent''"
  by (cases "status r") (simp_all add: statusKey_def)

lemma statusKey_present: "status r = Some s \<Longrightarrow> s \<noteq> [] \<Longrightarrow> statusKey r = toLowerCase s"
  by (simp add: statusKey_def)

text \<open>
  C1 (as amended). A record whose status is a non-empty string that, lower-cased, is
  none of present, absent, late, leave, ontime changes none of the five status
  counters. A record whose status is missing or the empty string is counted as absent:
  it adds one to \<open>totalAbsent\<close> and leaves the other four counters unchanged.
\<close>

theorem calculateStats_unrecognized_status:
  "(status r = Some s \<and> s \<noteq> []
      \<and> toLowerCase s \<notin> {''present'', ''absent'', ''late'', ''leave'', ''ontime''}
    \<longrightarrow> statusCounters (attendanceStats (calculateStats (this\<lparr>attendanceRecords := xs @ r # ys\<rparr>)))
        = statusCounters (attendanceStats (calculateStats (this\<lparr>attendanceRecords := xs @ ys\<rparr>))))
   \<and> (falsy (status r)
    \<longrightarrow> statusCounters (attendanceStats (calculateStats (this\<lparr>attendanceRecords := xs @ r # ys\<rparr>)))
        = (case statusCounters (attendanceStats (calculateStats (this\<lparr>attendanceRecords := xs @ ys\<rparr>)))
           of (p, a, l, v, t) \<Rightarrow> (p, a + 1, l, v, t)))"
  by (auto simp add: calculateStats_counters statusKey_missing statusKey_present)

theorem calculateStats_unrecognized_status_witness:
  "statusCounters (attendanceStats (calculateStats (mkAttendance
      [mkRecord ''u1'' (Some ''Present''), mkRecord ''u2'' (Some ''Late''),
       mkRecord ''u3'' (Some ''Present''), mkRecord ''u4'' (Some ''Unknown'')] None Day)))
   = (2, 0, 1, 0, 0)
   \<and> statusCounters (attendanceStats (calculateStats (mkAttendance
      [mkRecord ''u1'' (Some ''Present''), mkRecord ''u2'' (Some ''Late''),
       mkRecord ''u3'' (Some ''Present''), mkRecord ''u4'' None] None Day)))
   = (2, 1, 1, 0, 0)"
proof -
  let ?xs = "[mkRecord ''u1'' (Some ''Present''), mkRecord ''u2'' (Some ''Late''),
       mkRecord ''u3'' (Some ''Present'')]"
  have base: "statusCounters (attendanceStats (calculateStats
       ((mkAttendance [] None Day)\<lparr>attendanceRecords := ?xs @ []\<rparr>))) = (2, 0, 1, 0, 0)"
    by (simp add: calculateStats_def mkAttendance_def mkRecord_def statusCounters_def
        countStatus_def statusKey_def toLowerCase_def char_toLowerCase_def zeroStats_def)
  have low: "toLowerCase ''Unknown'' = ''unknown''"
    by (simp add: toLowerCase_def char_toLowerCase_def)
  have 1: "statusCounters (attendanceStats (calculateStats
       ((mkAttendance [] None Day)\<lparr>attendanceRecords := ?xs @ mkRecord ''u4'' (Some ''Unknown'') # []\<rparr>)))
       = (2, 0, 1, 0, 0)"
    using calculateStats_unrecognized_status
      [where r = "mkRecord ''u4'' (Some ''Unknown'')" and s = "''Unknown''"
        and this = "mkAttendance [] None Day" and xs = ?xs and ys = "[]", THEN conjunct1]
    unfolding base by (simp add: mkRecord_def low)
  have 2: "statusCounters (attendanceStats (calculateStats
       ((mkAttendance [] None Day)\<lparr>attendanceRecords := ?xs @ mkRecord ''u4'' None # []\<rparr>)))
       = (2, 1, 1, 0, 0)"
    using calculateStats_unrecognized_status
      [where r = "mkRecord ''u4'' None" and this = "mkAttendance [] None Day"
        and xs = ?xs and ys = "[]", THEN conjunct2]
    unfolding base by (simp add: mkRecord_def)
  from 1 2 show ?thesis
    by (simp add: mkAttendance_def)
qed

theorem calculateStats_missing_status_counterexample:
  "totalAbsent (attendanceStats (calculateStats (mkAttendance [] None Day))) = 0
   \<and> totalAbsent (attendanceStats (calculateStats (mkAttendance [mkRecord ''u1'' None] None Day))) = 1"
  by (simp add: calculateStats_def mkAttendance_def mkRecord_def
      countStatus_def statusKey_def zeroStats_def)

text \<open>
  C5. \<open>totalStaff\<close> is the number of distinct user ids in the records when the period
  is Day; for every other period it is the pagination data's \<open>totalItems\<close> when there
  is pagination data and its \<open>totalItems\<close> is not 0, and the number of records otherwise.
\<close>

theorem calculateStats_totalStaff:
  "totalStaff (attendanceStats (calculateStats this)) =
     (if selectedPeriod this = Day
      then card ((\<lambda>r. user_id (user r)) ` set (attendanceRecords this))
      else (case paginationData this of
              Some p \<Rightarrow> if totalItems p \<noteq> 0 then totalItems p
                        else length (attendanceRecords this)
            | None \<Rightarrow> length (attendanceRecords this)))"
proof -
  have "length (remdups (map (\<lambda>r. user_id (user r)) (attendanceRecords this)))
        = card ((\<lambda>r. user_id (user r)) ` set (attendanceRecords this))"
    by (simp add: length_remdups_card_conv)
  then show ?thesis
    by (simp add: calculateStats_def Let_def split: option.splits)
qed

theorem calculateStats_totalStaff_witness:
  "totalStaff (attendanceStats (calculateStats (mkAttendance
      [mkRecord ''u1'' (Some ''Present''), mkRecord ''u1'' (Some ''Late'')] None Day))) = 1
   \<and> totalStaff (attendanceStats (calculateStats (mkAttendance
      [mkRecord ''u1'' (Some ''Present''), mkRecord ''u1'' (Some ''Late'')]
      (Some \<lparr>totalPages = 5, totalItems = 42\<rparr>) Week))) = 42
   \<and> totalStaff (attendanceStats (calculateStats (mkAttendance
      [mkRecord ''u1'' (Some ''Present''), mkRecord ''u1'' (Some ''Late'')] None Month))) = 2"
proof -
  let ?rs = "[mkRecord ''u1'' (Some ''Present''), mkRecord ''u1'' (Some ''Late'')]"
  have "totalStaff (attendanceStats (calculateStats (mkAttendance ?rs None Day))) = 1"
    using calculateStats_totalStaff [of "mkAttendance ?rs None Day"]
    by (simp add: mkAttendance_def mkRecord_def)
  moreover have "totalStaff (attendanceStats (calculateStats (mkAttendance ?rs
      (Some \<lparr>totalPages = 5, totalItems = 42\<rparr>) Week))) = 42"
    using calculateStats_totalStaff
      [of "mkAttendance ?rs (Some \<lparr>totalPages = 5, totalItems = 42\<rparr>) Week"]
    by (simp add: mkAttendance_def)
  moreover have "totalStaff (attendanceStats (calculateStats (mkAttendance ?rs None Month))) = 2"
    using calculateStats_totalStaff [of "mkAttendance ?rs None Month"]
    by (simp add: mkAttendance_def)
  ultimately show ?thesis by simp
qed

subsection \<open>Task statistics\<close>

lemma zeroTaskStats_counts:
  "ts_total zeroTaskStats = Some 0 \<and> subCounts zeroTaskStats = replicate 10 (Some 0)"
  by (simp add: zeroTaskStats_def subCounts_def statusOf_def priorityOf_def numeral_eq_Suc)

text \<open>
  C7 (as amended). \<open>loadTaskStats\<close> returns the data object of an ok response
  unchanged: a key missing from the source stays missing, and \<open>total\<close> is passed
  through as it is. Only when the response is not ok, carries no data, or the request
  fails is the result the default object, in which all six status counts, all four
  priority counts and \<open>total\<close> are 0.
\<close>

theorem loadTaskStats_passthrough:
  "(ok response \<and> data response = Some d \<longrightarrow> loadTaskStats (HttpSuccess response) = d)
   \<and> (\<not> ok response \<or> data response = None \<longrightarrow>
        ts_total (loadTaskStats (HttpSuccess response)) = Some 0
        \<and> subCounts (loadTaskStats (HttpSuccess response)) = replicate 10 (Some 0))
   \<and> ts_total (loadTaskStats HttpFailure) = Some 0
   \<and> subCounts (loadTaskStats HttpFailure) = replicate 10 (Some 0)"
  using zeroTaskStats_counts
  by (auto simp add: loadTaskStats_def split: option.splits)

theorem loadTaskStats_passthrough_witness:
  "loadTaskStats (HttpSuccess \<lparr>ok = True, data = Some \<lparr>ts_total = Some 7, ts_stats = None\<rparr>\<rparr>)
     = \<lparr>ts_total = Some 7, ts_stats = None\<rparr>
   \<and> ts_total (loadTaskStats (HttpSuccess \<lparr>ok = False, data = Some emptyObject\<rparr>)) = Some 0
   \<and> subCounts (loadTaskStats (HttpSuccess \<lparr>ok = False, data = Some emptyObject\<rparr>))
     = replicate 10 (Some 0)"
proof -
  have "loadTaskStats (HttpSuccess \<lparr>ok = True, data = Some \<lparr>ts_total = Some 7, ts_stats = None\<rparr>\<rparr>)
     = \<lparr>ts_total = Some 7, ts_stats = None\<rparr>"
    using loadTaskStats_passthrough
      [where response = "\<lparr>ok = True, data = Some \<lparr>ts_total = Some 7, ts_stats = None\<rparr>\<rparr>"
        and d = "\<lparr>ts_total = Some 7, ts_stats = None\<rparr>", THEN conjunct1]
    by simp
  moreover have "ts_total (loadTaskStats (HttpSuccess \<lparr>ok = False, data = Some emptyObject\<rparr>)) = Some 0
     \<and> subCounts (loadTaskStats (HttpSuccess \<lparr>ok = False, data = Some emptyObject\<rparr>))
       = replicate 10 (Some 0)"
    using loadTaskStats_passthrough
      [where response = "\<lparr>ok = False, data = Some emptyObject\<rparr>",
        THEN conjunct2, THEN conjunct1]
    by simp
  ultimately show ?thesis by blast
qed

theorem loadTaskStats_empty_object_counterexample:
  "ts_total (loadTaskStats (HttpSuccess \<lparr>ok = True, data = Some emptyObject\<rparr>)) = None
   \<and> subCounts (loadTaskStats (HttpSuccess \<lparr>ok = True, data = Some emptyObject\<rparr>))
     = [None, None, None, None, None, None, None, None, None, None]"
  by (simp add: loadTaskStats_def emptyObject_def subCounts_def statusOf_def priorityOf_def)

subsection \<open>Top three by monthly rank\<close>

lemma top_three_properties:
  fixes xs :: "Employee list"
  defines "top3 \<equiv> take 3 (sort_key monthlyRank xs)"
  shows "length top3 = min 3 (length xs)"
    and "sorted (map monthlyRank top3)"
    and "\<exists>rest. mset (top3 @ rest) = mset xs
           \<and> (\<forall>a\<in>set top3. \<forall>b\<in>set rest. monthlyRank a \<le> monthlyRank b)"
proof -
  let ?ys = "sort_key monthlyRank xs"
  show "length top3 = min 3 (length xs)"
    by (simp add: top3_def min_def)
  have s: "sorted (map monthlyRank ?ys)"
    by simp
  then have "sorted (take 3 (map monthlyRank ?ys))"
    by (rule sorted_wrt_take)
  then show "sorted (map monthlyRank top3)"
    by (simp add: top3_def take_map)
  have "sorted (map monthlyRank (take 3 ?ys @ drop 3 ?ys))"
    using s by simp
  then have "\<forall>a\<in>set top3. \<forall>b\<in>set (drop 3 ?ys). monthlyRank a \<le> monthlyRank b"
    unfolding map_append sorted_append top3_def by auto
  moreover have "mset (top3 @ drop 3 ?ys) = mset xs"
    unfolding top3_def append_take_drop_id by simp
  ultimately show "\<exists>rest. mset (top3 @ rest) = mset xs
           \<and> (\<forall>a\<in>set top3. \<forall>b\<in>set rest. monthlyRank a \<le> monthlyRank b)"
    by blast
qed

lemma loadEmployeeRanking_next_ok:
  assumes "arrays h r = Some xs" "r < fresh h"
  shows "loadEmployeeRanking_next (h, this) \<lparr>ok = True, data = Some \<lparr>pageData = r\<rparr>\<rparr>
         = (h\<lparr>arrays := (arrays h)(r \<mapsto> sort_key monthlyRank xs,
                                     fresh h \<mapsto> take 3 (sort_key monthlyRank xs)),
               fresh := Suc (fresh h)\<rparr>,
            this\<lparr>employees := r, topThreeEmployees := fresh h, isLoading := False\<rparr>)"
  using assms
  by (simp add: loadEmployeeRanking_next_def Array_sort_def Array_slice_def Let_def)

lemma toEmployeeRank_monthlyRank [simp]: "er_monthlyRank (toEmployeeRank e) = monthlyRank e"
  by (simp add: toEmployeeRank_def)

lemma loadEmployeeRanks_ranks:
  "map er_monthlyRank (loadEmployeeRanks (HttpSuccess \<lparr>ok = True, data = Some (Paginated xs)\<rparr>))
   = map monthlyRank (take 3 (sort_key monthlyRank xs))"
  "map er_monthlyRank (loadEmployeeRanks (HttpSuccess \<lparr>ok = True, data = Some (Direct xs)\<rparr>))
   = map monthlyRank (take 3 (sort_key monthlyRank xs))"
  by (simp_all add: loadEmployeeRanks_def comp_def)

text \<open>
  C9 (as amended). The number of employees taken is fixed at three. The Ranking
  component stores, as \<open>topThreeEmployees\<close>, a new array holding the first three
  elements (all of them when there are fewer) of the received list sorted ascending by
  \<open>monthlyRank\<close>; the admin dashboard returns the projections of the same three. The
  selection is sorted by rank, and no employee left out has a smaller rank than a
  selected one.
\<close>

theorem top_three_by_monthlyRank:
  assumes "arrays h r = Some xs" and "r < fresh h"
    and "res = loadEmployeeRanking_next (h, this) \<lparr>ok = True, data = Some \<lparr>pageData = r\<rparr>\<rparr>"
    and "top3 = take 3 (sort_key monthlyRank xs)"
  shows "arrays (fst res) (topThreeEmployees (snd res)) = Some top3
       \<and> map er_monthlyRank
           (loadEmployeeRanks (HttpSuccess \<lparr>ok = True, data = Some (Paginated xs)\<rparr>))
         = map monthlyRank top3
       \<and> length top3 = min 3 (length xs)
       \<and> sorted (map monthlyRank top3)
       \<and> (\<exists>rest. mset (top3 @ rest) = mset xs
            \<and> (\<forall>a\<in>set top3. \<forall>b\<in>set rest. monthlyRank a \<le> monthlyRank b))
       \<and> loadEmployeeRanks (HttpSuccess \<lparr>ok = True, data = Some (Paginated xs)\<rparr>)
         = map toEmployeeRank top3
       \<and> loadEmployeeRanks (HttpSuccess \<lparr>ok = True, data = Some (Direct xs)\<rparr>)
         = map toEmployeeRank top3"
proof -
  have "loadEmployeeRanks (HttpSuccess \<lparr>ok = True, data = Some (Paginated xs)\<rparr>)
         = map toEmployeeRank top3"
    and "loadEmployeeRanks (HttpSuccess \<lparr>ok = True, data = Some (Direct xs)\<rparr>)
         = map toEmployeeRank top3"
    using assms(4) by (simp_all add: loadEmployeeRanks_def)
  moreover have "arrays (fst res) (topThreeEmployees (snd res)) = Some top3"
    using assms by (simp add: loadEmployeeRanking_next_ok)
  moreover have "map er_monthlyRank
           (loadEmployeeRanks (HttpSuccess \<lparr>ok = True, data = Some (Paginated xs)\<rparr>))
         = map monthlyRank top3"
    using assms(4) by (simp add: loadEmployeeRanks_ranks)
  ultimately show ?thesis
    using top_three_properties [of xs] assms(4) by blast
qed

lemma exampleRanks_sorted:
  "sort_key monthlyRank exampleRanks
   = [mkEmployee ''b'' None None 1, mkEmployee ''a'' None None 2, mkEmployee ''c'' None None 3]"
  by (simp add: exampleRanks_def mkEmployee_def)

theorem top_three_by_monthlyRank_witness:
  "arrays exampleHeap 2 = Some exampleRanks \<and> 2 < fresh exampleHeap
   \<and> map monthlyRank exampleRanks = [2, 1, 3]
   \<and> map_option (map monthlyRank)
        (arrays (fst (loadEmployeeRanking_next (exampleHeap, initialRanking)
                        \<lparr>ok = True, data = Some \<lparr>pageData = 2\<rparr>\<rparr>))
           (topThreeEmployees (snd (loadEmployeeRanking_next (exampleHeap, initialRanking)
                        \<lparr>ok = True, data = Some \<lparr>pageData = 2\<rparr>\<rparr>))))
      = Some [1, 2, 3]"
proof -
  have a: "arrays exampleHeap 2 = Some exampleRanks" and b: "2 < fresh exampleHeap"
    by (simp_all add: exampleHeap_def)
  have c: "map monthlyRank exampleRanks = [2, 1, 3]"
    by (simp add: exampleRanks_def mkEmployee_def)
  have d: "map monthlyRank (take 3 (sort_key monthlyRank exampleRanks)) = [1, 2, 3]"
    by (simp add: exampleRanks_sorted mkEmployee_def)
  from top_three_by_monthlyRank [OF a b refl refl, of initialRanking, THEN conjunct1]
  have "map_option (map monthlyRank)
        (arrays (fst (loadEmployeeRanking_next (exampleHeap, initialRanking)
                        \<lparr>ok = True, data = Some \<lparr>pageData = 2\<rparr>\<rparr>))
           (topThreeEmployees (snd (loadEmployeeRanking_next (exampleHeap, initialRanking)
                        \<lparr>ok = True, data = Some \<lparr>pageData = 2\<rparr>\<rparr>))))
      = Some [1, 2, 3]"
    by (simp add: d)
  with a b c show ?thesis by blast
qed

theorem top_three_not_two_counterexample:
  "map monthlyRank exampleRanks = [2, 1, 3]
   \<and> map er_monthlyRank
       (loadEmployeeRanks (HttpSuccess \<lparr>ok = True, data = Some (Paginated exampleRanks)\<rparr>))
     = [1, 2, 3]"
  by (simp add: loadEmployeeRanks_def exampleRanks_def mkEmployee_def toEmployeeRank_def)

text \<open>
  C10. After the response handler of \<open>loadEmployeeRanking\<close> has run on an ok response,
  the component's \<open>employees\<close> is the very array that the response carried, and that
  array has been reordered: it now holds the received employees sorted ascending by
  \<open>monthlyRank\<close>. Unless they arrived sorted, the array is no longer in the order
  received.
\<close>

theorem loadEmployeeRanking_sorts_in_place:
  assumes "arrays h r = Some xs" and "r < fresh h"
    and "res = loadEmployeeRanking_next (h, this) \<lparr>ok = True, data = Some \<lparr>pageData = r\<rparr>\<rparr>"
  shows "employees (snd res) = r
       \<and> arrays (fst res) (employees (snd res)) = Some (sort_key monthlyRank xs)
       \<and> sorted (map monthlyRank (sort_key monthlyRank xs))
       \<and> mset (sort_key monthlyRank xs) = mset xs
       \<and> (\<not> sorted (map monthlyRank xs) \<longrightarrow> arrays (fst res) r \<noteq> arrays h r)"
proof -
  have ne: "sort_key monthlyRank xs \<noteq> xs" if "\<not> sorted (map monthlyRank xs)"
  proof
    assume "sort_key monthlyRank xs = xs"
    then have "sorted (map monthlyRank xs)"
      using sorted_sort_key [of monthlyRank xs] by simp
    with that show False by simp
  qed
  have "r \<noteq> fresh h"
    using assms(2) by simp
  then show ?thesis
    using assms ne by (simp add: loadEmployeeRanking_next_ok)
qed

theorem loadEmployeeRanking_sorts_in_place_witness:
  "arrays exampleHeap 2 = Some exampleRanks \<and> 2 < fresh exampleHeap
   \<and> map monthlyRank exampleRanks = [2, 1, 3]
   \<and> employees (snd (loadEmployeeRanking_next (exampleHeap, initialRanking)
                        \<lparr>ok = True, data = Some \<lparr>pageData = 2\<rparr>\<rparr>)) = 2
   \<and> map_option (map monthlyRank)
        (arrays (fst (loadEmployeeRanking_next (exampleHeap, initialRanking)
                        \<lparr>ok = True, data = Some \<lparr>pageData = 2\<rparr>\<rparr>)) 2)
      = Some [1, 2, 3]"
proof -
  have a: "arrays exampleHeap 2 = Some exampleRanks" and b: "2 < fresh exampleHeap"
    by (simp_all add: exampleHeap_def)
  have c: "map monthlyRank exampleRanks = [2, 1, 3]"
    by (simp add: exampleRanks_def mkEmployee_def)
  have d: "map monthlyRank (sort_key monthlyRank exampleRanks) = [1, 2, 3]"
    by (simp add: exampleRanks_def mkEmployee_def)
  note w = loadEmployeeRanking_sorts_in_place [OF a b refl, of initialRanking]
  have e: "employees (snd (loadEmployeeRanking_next (exampleHeap, initialRanking)
                        \<lparr>ok = True, data = Some \<lparr>pageData = 2\<rparr>\<rparr>)) = 2"
    using w by blast
  have "arrays (fst (loadEmployeeRanking_next (exampleHeap, initialRanking)
                        \<lparr>ok = True, data = Some \<lparr>pageData = 2\<rparr>\<rparr>))
          (employees (snd (loadEmployeeRanking_next (exampleHeap, initialRanking)
                        \<lparr>ok = True, data = Some \<lparr>pageData = 2\<rparr>\<rparr>)))
        = Some (sort_key monthlyRank exampleRanks)"
    using w by blast
  then have "arrays (fst (loadEmployeeRanking_next (exampleHeap, initialRanking)
                        \<lparr>ok = True, data = Some \<lparr>pageData = 2\<rparr>\<rparr>)) 2
        = Some (sort_key monthlyRank exampleRanks)"
    unfolding e .
  then have "map_option (map monthlyRank)
        (arrays (fst (loadEmployeeRanking_next (exampleHeap, initialRanking)
                        \<lparr>ok = True, data = Some \<lparr>pageData = 2\<rparr>\<rparr>)) 2)
      = Some [1, 2, 3]"
    by (simp add: d)
  with e a b c show ?thesis
    by blast
qed

subsection \<open>The Map object\<close>

lemma Map_set_keys_list:
  "map fst (Map_set m k v) = (if k \<in> fst ` set m then map fst m else map fst m @ [k])"
  by (induction m) (auto simp add: rev_image_eqI)

lemma Map_set_distinct: "distinct (map fst m) \<Longrightarrow> distinct (map fst (Map_set m k v))"
  by (simp add: Map_set_keys_list)

lemma Map_set_map_of: "map_of (Map_set m k v) = (map_of m)(k \<mapsto> v)"
  by (induction m) auto

lemma Map_get_set: "Map_get (Map_set m k v) d = (if d = k then Some v else Map_get m d)"
  by (simp add: Map_get_def Map_set_map_of)

lemma Map_get_in_set:
  "distinct (map fst m) \<Longrightarrow> (k, v) \<in> set m \<longleftrightarrow> Map_get m k = Some v"
  by (simp add: Map_get_def)

lemma Map_get_Nil [simp]: "Map_get [] d = None"
  by (simp add: Map_get_def)

subsection \<open>Running totals per department\<close>

lemma orZero_simps [simp]: "orZero None = 0" "orZero (Some v) = v"
  by (simp_all add: orZero_def)

lemma falsy_iff: "falsy s \<longleftrightarrow> s = None \<or> s = Some []"
  by (cases s) simp_all

lemma carried_iff: "Some d \<in> department ` set emps \<longleftrightarrow> (\<exists>e\<in>set emps. department e = Some d)"
  by force

lemma initDeptPoints_fold_get:
  "Map_get (foldl (\<lambda>m dept. Map_set m (name dept) (0::rat)) m0 depts) d
   = (if d \<in> name ` set depts then Some 0 else Map_get m0 d)"
  by (induction depts arbitrary: m0) (auto simp add: Map_get_set)

lemma initDeptPoints_fold_distinct:
  "distinct (map fst m0) \<Longrightarrow>
   distinct (map fst (foldl (\<lambda>m dept. Map_set m (name dept) (0::rat)) m0 depts))"
  by (induction depts arbitrary: m0) (simp_all add: Map_set_distinct)

lemma initDeptPoints_get:
  "Map_get (initDeptPoints depts) d = (if d \<in> name ` set depts then Some 0 else None)"
  by (simp add: initDeptPoints_def initDeptPoints_fold_get)

lemma initDeptPoints_distinct: "distinct (map fst (initDeptPoints depts))"
  by (simp add: initDeptPoints_def initDeptPoints_fold_distinct)

lemma addEmployeePoints_get:
  "Map_get (addEmployeePoints add m e) d =
     (if d \<noteq> [] \<and> department e = Some d
      then Some (add (orZero (Map_get m d)) (orZero (monthlyPoint e)))
      else Map_get m d)"
  by (cases "department e") (auto simp add: addEmployeePoints_def Map_get_set Let_def)

lemma addEmployeePoints_distinct:
  "distinct (map fst m) \<Longrightarrow> distinct (map fst (addEmployeePoints add m e))"
  by (simp add: addEmployeePoints_def Map_set_distinct Let_def)

lemma foldl_addEmployeePoints_get:
  "Map_get (foldl (addEmployeePoints add) m emps) d =
     (if d \<noteq> [] \<and> (\<exists>e\<in>set emps. department e = Some d)
      then Some (foldl add (orZero (Map_get m d))
                   (map (\<lambda>e. orZero (monthlyPoint e))
                      (filter (\<lambda>e. department e = Some d) emps)))
      else Map_get m d)"
proof (induction emps arbitrary: m)
  case Nil
  show ?case by simp
next
  case (Cons e es)
  show ?case
    unfolding foldl_Cons Cons.IH
    by (auto simp add: addEmployeePoints_get filter_empty_conv)
qed

lemma foldl_addEmployeePoints_distinct:
  "distinct (map fst m) \<Longrightarrow> distinct (map fst (foldl (addEmployeePoints add) m emps))"
  by (induction emps arbitrary: m) (simp_all add: addEmployeePoints_distinct)

lemma deptPointsOf_distinct: "distinct (map fst (deptPointsOf add depts emps))"
  by (simp add: deptPointsOf_def foldl_addEmployeePoints_distinct initDeptPoints_distinct)

lemma sumOfMonthlyPoints_none:
  "d = [] \<or> Some d \<notin> department ` set emps \<Longrightarrow> sumOfMonthlyPoints add emps d = 0"
proof -
  assume "d = [] \<or> Some d \<notin> department ` set emps"
  then have "filter (\<lambda>e. department e = Some d \<and> d \<noteq> []) emps = []"
    by (auto simp add: filter_empty_conv carried_iff)
  then show ?thesis
    by (simp add: sumOfMonthlyPoints_def)
qed

lemma deptPointsOf_get:
  "Map_get (deptPointsOf add depts emps) d =
     (if hasTotal depts emps d then Some (sumOfMonthlyPoints add emps d) else None)"
proof (cases "d \<noteq> [] \<and> Some d \<in> department ` set emps")
  case True
  then have "filter (\<lambda>e. department e = Some d \<and> d \<noteq> []) emps
             = filter (\<lambda>e. department e = Some d) emps"
    by simp
  then show ?thesis
    using True
    by (simp add: deptPointsOf_def foldl_addEmployeePoints_get initDeptPoints_get
        hasTotal_def sumOfMonthlyPoints_def carried_iff)
next
  case False
  then have "sumOfMonthlyPoints add emps d = 0"
    by (simp add: sumOfMonthlyPoints_none)
  then show ?thesis
    using False
    by (auto simp add: deptPointsOf_def foldl_addEmployeePoints_get initDeptPoints_get
        hasTotal_def carried_iff)
qed

subsection \<open>Head counts per department\<close>

lemma countEmployee_get:
  "Map_get (countEmployee m e) d =
     (if d \<noteq> [] \<and> department e = Some d
      then Some (orZero (Map_get m d) + 1)
      else Map_get m d)"
  by (cases "department e") (auto simp add: countEmployee_def Map_get_set Let_def)

lemma countEmployee_distinct:
  "distinct (map fst m) \<Longrightarrow> distinct (map fst (countEmployee m e))"
  by (simp add: countEmployee_def Map_set_distinct Let_def)

lemma foldl_countEmployee_get:
  "Map_get (foldl countEmployee m emps) d =
     (if d \<noteq> [] \<and> (\<exists>e\<in>set emps. department e = Some d)
      then Some (orZero (Map_get m d) + length (filter (\<lambda>e. department e = Some d) emps))
      else Map_get m d)"
proof (induction emps arbitrary: m)
  case Nil
  show ?case by simp
next
  case (Cons e es)
  show ?case
    unfolding foldl_Cons Cons.IH
    by (auto simp add: countEmployee_get filter_empty_conv)
qed

lemma foldl_countEmployee_distinct:
  "distinct (map fst m) \<Longrightarrow> distinct (map fst (foldl countEmployee m emps))"
  by (induction emps arbitrary: m) (simp_all add: countEmployee_distinct)

lemma deptEmployeeCountsOf_distinct: "distinct (map fst (deptEmployeeCountsOf emps))"
  by (simp add: deptEmployeeCountsOf_def foldl_countEmployee_distinct)

lemma deptEmployeeCountsOf_get:
  "Map_get (deptEmployeeCountsOf emps) d =
     (if d \<noteq> [] \<and> Some d \<in> department ` set emps then Some (headcount emps d) else None)"
  by (simp add: deptEmployeeCountsOf_def foldl_countEmployee_get headcount_def carried_iff)

lemma deptEmployeeCountsOf_entry:
  "(d, c) \<in> set (deptEmployeeCountsOf emps) \<longleftrightarrow>
     d \<noteq> [] \<and> Some d \<in> department ` set emps \<and> c = headcount emps d"
  using Map_get_in_set [OF deptEmployeeCountsOf_distinct, of d c emps]
  by (auto simp add: deptEmployeeCountsOf_get)

lemma deptEmployeeCountsOf_Nil_iff:
  "deptEmployeeCountsOf emps = [] \<longleftrightarrow> (\<forall>e\<in>set emps. falsy (department e))"
proof
  assume "deptEmployeeCountsOf emps = []"
  then have "\<And>d c. (d, c) \<notin> set (deptEmployeeCountsOf emps)" by simp
  then show "\<forall>e\<in>set emps. falsy (department e)"
    unfolding deptEmployeeCountsOf_entry falsy_iff carried_iff
    by (metis not_Some_eq)
next
  assume a: "\<forall>e\<in>set emps. falsy (department e)"
  have "(d, c) \<notin> set (deptEmployeeCountsOf emps)" for d c
    unfolding deptEmployeeCountsOf_entry carried_iff using a by (auto simp add: falsy_iff)
  then show "deptEmployeeCountsOf emps = []"
    by (cases "deptEmployeeCountsOf emps") auto
qed

subsection \<open>Keeping the greatest entry\<close>

lemma foldl_pickGreater:
  fixes a :: "'v::linorder"
  assumes "foldl pickGreater (a, b) m = (mx, bd)"
  shows "(\<forall>e\<in>set m. snd e \<le> mx) \<and> a \<le> mx
       \<and> ((mx, bd) = (a, b) \<and> (\<forall>e\<in>set m. snd e \<le> a) \<or> (bd, mx) \<in> set m \<and> a < mx)"
  using assms
proof (induction m arbitrary: mx bd rule: rev_induct)
  case Nil
  then show ?case by simp
next
  case (snoc x xs)
  obtain mx' bd' where f: "foldl pickGreater (a, b) xs = (mx', bd')"
    by (cases "foldl pickGreater (a, b) xs")
  note ih = snoc.IH [OF f]
  obtain d v where x: "x = (d, v)" by (cases x)
  have step: "(mx, bd) = pickGreater (mx', bd') (d, v)"
    using snoc.prems f x by simp
  show ?case
  proof (cases "v > mx'")
    case True
    then have "mx = v" "bd = d"
      using step by (simp_all add: pickGreater_def)
    then show ?thesis
      using ih True x by force
  next
    case False
    then have "mx = mx'" "bd = bd'"
      using step by (simp_all add: pickGreater_def)
    then show ?thesis
      using ih False x by force
  qed
qed

lemma Math_round_0 [simp]: "Math_round 0 = 0"
  by (simp add: Math_round_def floor_eq_iff)

lemma Math_round_numeral [simp]: "Math_round (numeral n) = numeral n"
proof -
  have "Math_round (of_int (numeral n)) = numeral n"
    unfolding Math_round_def by linarith
  then show ?thesis by simp
qed

subsection \<open>The best department\<close>

lemma calculateBestDepartment_empty:
  "emps = [] \<or> departments this = [] \<Longrightarrow>
   calculateBestDepartment add this emps
   = this\<lparr>bestDepartment := ''N/A'', bestDepartmentPoints := 0\<rparr>"
  by (simp add: calculateBestDepartment_def)

lemma calculateBestDepartment_nonempty:
  assumes "emps \<noteq> []" "departments this \<noteq> []"
    and "foldl pickGreater (0, []) (deptPointsOf add (departments this) emps) = (mx, bd)"
    and "foldl pickGreater (0, bd) (deptEmployeeCountsOf emps) = (c, bd2)"
  shows "bestDepartmentPoints (calculateBestDepartment add this emps) = Math_round mx"
    and "mx \<noteq> 0 \<Longrightarrow> bestDepartment (calculateBestDepartment add this emps)
           = (if bd = [] then ''N/A'' else bd)"
    and "mx = 0 \<Longrightarrow> bestDepartment (calculateBestDepartment add this emps)
           = (if bd2 = [] then ''N/A'' else bd2)"
  using assms by (simp_all add: calculateBestDepartment_def Let_def)

lemma best_by_points:
  assumes "foldl pickGreater (0, []) (deptPointsOf add depts emps) = (mx, bd)"
  shows "\<forall>d. hasTotal depts emps d \<longrightarrow> sumOfMonthlyPoints add emps d \<le> mx"
    and "0 \<le> mx"
    and "mx = 0 \<Longrightarrow> bd = []"
    and "mx \<noteq> 0 \<Longrightarrow> bd \<noteq> [] \<and> hasTotal depts emps bd
           \<and> sumOfMonthlyPoints add emps bd = mx"
proof -
  note fp = foldl_pickGreater [OF assms]
  note dist = deptPointsOf_distinct [of add depts emps]
  have entry: "(d, p) \<in> set (deptPointsOf add depts emps) \<longleftrightarrow>
               hasTotal depts emps d \<and> p = sumOfMonthlyPoints add emps d" for d p
    using Map_get_in_set [OF dist, of d p] by (auto simp add: deptPointsOf_get)
  show "\<forall>d. hasTotal depts emps d \<longrightarrow> sumOfMonthlyPoints add emps d \<le> mx"
  proof (intro allI impI)
    fix d
    assume "hasTotal depts emps d"
    then have "(d, sumOfMonthlyPoints add emps d) \<in> set (deptPointsOf add depts emps)"
      by (simp add: entry)
    then show "sumOfMonthlyPoints add emps d \<le> mx"
      using fp by fastforce
  qed
  show "0 \<le> mx"
    using fp by simp
  show "bd = []" if "mx = 0"
    using fp that by auto
  show "bd \<noteq> [] \<and> hasTotal depts emps bd \<and> sumOfMonthlyPoints add emps bd = mx"
    if "mx \<noteq> 0"
  proof -
    have in_m: "(bd, mx) \<in> set (deptPointsOf add depts emps)" and pos: "0 < mx"
      using fp that by auto
    then have g: "hasTotal depts emps bd" "sumOfMonthlyPoints add emps bd = mx"
      by (simp_all add: entry)
    have "bd \<noteq> []"
    proof
      assume "bd = []"
      then have "mx = 0"
        using g(2) by (simp add: sumOfMonthlyPoints_none)
      with pos show False by simp
    qed
    with g show ?thesis by simp
  qed
qed

lemma best_by_headcount:
  assumes "foldl pickGreater (0, []) (deptEmployeeCountsOf emps) = (c, bd2)"
  shows "(\<forall>e\<in>set emps. falsy (department e)) \<Longrightarrow> bd2 = []"
    and "(\<exists>e\<in>set emps. \<not> falsy (department e)) \<Longrightarrow>
           bd2 \<noteq> [] \<and> Some bd2 \<in> department ` set emps
           \<and> (\<forall>d. d \<noteq> [] \<longrightarrow> headcount emps d \<le> headcount emps bd2)"
    and "bd2 = [] \<or> (bd2 \<noteq> [] \<and> Some bd2 \<in> department ` set emps)"
proof -
  note fp = foldl_pickGreater [OF assms]
  show "bd2 = []" if "\<forall>e\<in>set emps. falsy (department e)"
  proof -
    have "deptEmployeeCountsOf emps = []"
      using that by (simp add: deptEmployeeCountsOf_Nil_iff)
    then show ?thesis using assms by simp
  qed
  show "bd2 = [] \<or> (bd2 \<noteq> [] \<and> Some bd2 \<in> department ` set emps)"
    using fp by (auto simp add: deptEmployeeCountsOf_entry)
  show "bd2 \<noteq> [] \<and> Some bd2 \<in> department ` set emps
        \<and> (\<forall>d. d \<noteq> [] \<longrightarrow> headcount emps d \<le> headcount emps bd2)"
    if "\<exists>e\<in>set emps. \<not> falsy (department e)"
  proof -
    from that obtain e k where e: "e \<in> set emps" "department e = Some k" "k \<noteq> []"
      by (auto simp add: falsy_iff)
    have kin: "(k, headcount emps k) \<in> set (deptEmployeeCountsOf emps)"
      using e by (auto simp add: deptEmployeeCountsOf_entry carried_iff)
    have "0 < headcount emps k"
      using e by (auto simp add: headcount_def filter_empty_conv)
    then have "0 < c"
      using fp kin by fastforce
    then have "(bd2, c) \<in> set (deptEmployeeCountsOf emps)"
      using fp by auto
    then have b: "bd2 \<noteq> []" "Some bd2 \<in> department ` set emps" "c = headcount emps bd2"
      by (simp_all add: deptEmployeeCountsOf_entry)
    have "headcount emps d \<le> c" if "d \<noteq> []" for d
    proof (cases "Some d \<in> department ` set emps")
      case True
      then have "(d, headcount emps d) \<in> set (deptEmployeeCountsOf emps)"
        using that by (simp add: deptEmployeeCountsOf_entry)
      then show ?thesis using fp by fastforce
    next
      case False
      then have "filter (\<lambda>e. department e = Some d) emps = []"
        by (auto simp add: filter_empty_conv carried_iff)
      then show ?thesis by (simp add: headcount_def)
    qed
    with b show ?thesis by blast
  qed
qed

text \<open>
  C3 (as amended). Every known department's running total starts at 0. After the loop
  over the employees the names with a running total are the known department names and,
  besides them, every non-empty department name carried by an employee: an employee of
  an unlisted department starts a running total under that name. Each running total,
  of a listed or an unlisted name, is the sum of \<open>monthlyPoint\<close> (0 when absent) over
  exactly the employees whose non-empty department field equals the name. The department
  reported as best is therefore a name with a running total (listed, or carried by an
  employee only), or "N/A".
\<close>

theorem deptPoints_totals_and_best:
  "(\<forall>d\<in>name ` set (departments this).
       Map_get (initDeptPoints (departments this)) d = Some 0)
   \<and> (\<forall>d. Map_get (deptPointsOf add (departments this) emps) d
          = (if d \<in> name ` set (departments this)
                \<or> (d \<noteq> [] \<and> Some d \<in> department ` set emps)
             then Some (sumOfMonthlyPoints add emps d)
             else None))
   \<and> (bestDepartment (calculateBestDepartment add this emps) \<in> name ` set (departments this)
      \<or> (bestDepartment (calculateBestDepartment add this emps) \<noteq> []
          \<and> Some (bestDepartment (calculateBestDepartment add this emps))
              \<in> department ` set emps)
      \<or> bestDepartment (calculateBestDepartment add this emps) = ''N/A'')"
proof (intro conjI ballI allI)
  fix d
  assume "d \<in> name ` set (departments this)"
  then show "Map_get (initDeptPoints (departments this)) d = Some 0"
    by (simp add: initDeptPoints_get)
next
  fix d
  show "Map_get (deptPointsOf add (departments this) emps) d
          = (if d \<in> name ` set (departments this)
                \<or> (d \<noteq> [] \<and> Some d \<in> department ` set emps)
             then Some (sumOfMonthlyPoints add emps d)
             else None)"
    using deptPointsOf_get [of add "departments this" emps d]
    by (simp add: hasTotal_def)
next
  let ?best = "bestDepartment (calculateBestDepartment add this emps)"
  show "?best \<in> name ` set (departments this)
      \<or> (?best \<noteq> [] \<and> Some ?best \<in> department ` set emps)
      \<or> ?best = ''N/A''"
  proof (cases "emps = [] \<or> departments this = []")
    case True
    then show ?thesis by (simp add: calculateBestDepartment_empty)
  next
    case False
    obtain mx bd where f1:
      "foldl pickGreater (0, []) (deptPointsOf add (departments this) emps) = (mx, bd)"
      by (cases "foldl pickGreater (0, []) (deptPointsOf add (departments this) emps)")
    obtain c bd2 where f2: "foldl pickGreater (0, bd) (deptEmployeeCountsOf emps) = (c, bd2)"
      by (cases "foldl pickGreater (0, bd) (deptEmployeeCountsOf emps)")
    note nb = calculateBestDepartment_nonempty [OF _ _ f1 f2]
    show ?thesis
    proof (cases "mx = 0")
      case True
      then have "bd = []"
        using best_by_points(3) [OF f1] by simp
      then have "bd2 = [] \<or> (bd2 \<noteq> [] \<and> Some bd2 \<in> department ` set emps)"
        using best_by_headcount(3) [of emps c bd2] f2 by simp
      then show ?thesis
        using nb(3) True False by auto
    next
      case mx: False
      then have "bd \<noteq> []" "hasTotal (departments this) emps bd"
        using best_by_points(4) [OF f1] by simp_all
      then show ?thesis
        using nb(2) mx False by (auto simp add: hasTotal_def)
    qed
  qed
qed

text \<open>
  C4 (as amended). When the employee list or the department list is empty the result
  is "N/A" with 0 points. Otherwise the running totals are those of the listed
  department names and of the non-empty department names carried by employees. When
  some running total is positive, the best department is a name whose running total is
  the greatest, and the points reported are that total, rounded. When no running total
  is positive (every total is 0 or negative), 0 points are reported and the best
  department is a non-empty department name carried by the greatest number of
  employees, whatever its total, or "N/A" when no employee carries a department.
\<close>

theorem calculateBestDepartment_selection:
  "(emps = [] \<or> departments this = [] \<longrightarrow>
      bestDepartment (calculateBestDepartment add this emps) = ''N/A''
    \<and> bestDepartmentPoints (calculateBestDepartment add this emps) = 0)
   \<and> (emps \<noteq> [] \<and> departments this \<noteq> []
       \<and> (\<exists>d. hasTotal (departments this) emps d \<and> 0 < sumOfMonthlyPoints add emps d) \<longrightarrow>
      hasTotal (departments this) emps (bestDepartment (calculateBestDepartment add this emps))
    \<and> (\<forall>d. hasTotal (departments this) emps d \<longrightarrow>
           sumOfMonthlyPoints add emps d
           \<le> sumOfMonthlyPoints add emps (bestDepartment (calculateBestDepartment add this emps)))
    \<and> bestDepartmentPoints (calculateBestDepartment add this emps)
        = Math_round (sumOfMonthlyPoints add emps
            (bestDepartment (calculateBestDepartment add this emps))))
   \<and> (emps \<noteq> [] \<and> departments this \<noteq> []
       \<and> (\<forall>d. hasTotal (departments this) emps d \<longrightarrow> sumOfMonthlyPoints add emps d \<le> 0) \<longrightarrow>
      bestDepartmentPoints (calculateBestDepartment add this emps) = 0
    \<and> ((\<forall>e\<in>set emps. falsy (department e)) \<longrightarrow>
         bestDepartment (calculateBestDepartment add this emps) = ''N/A'')
    \<and> ((\<exists>e\<in>set emps. \<not> falsy (department e)) \<longrightarrow>
         bestDepartment (calculateBestDepartment add this emps) \<noteq> []
       \<and> Some (bestDepartment (calculateBestDepartment add this emps)) \<in> department ` set emps
       \<and> (\<forall>d. d \<noteq> [] \<longrightarrow>
             headcount emps d
             \<le> headcount emps (bestDepartment (calculateBestDepartment add this emps)))))"
proof -
  let ?D = "departments this"
  let ?r = "calculateBestDepartment add this emps"
  obtain mx bd where f1: "foldl pickGreater (0, []) (deptPointsOf add ?D emps) = (mx, bd)"
    by (cases "foldl pickGreater (0, []) (deptPointsOf add ?D emps)")
  obtain c bd2 where f2: "foldl pickGreater (0, bd) (deptEmployeeCountsOf emps) = (c, bd2)"
    by (cases "foldl pickGreater (0, bd) (deptEmployeeCountsOf emps)")
  note bp = best_by_points [OF f1]
  have empty: "bestDepartment ?r = ''N/A'' \<and> bestDepartmentPoints ?r = 0"
    if "emps = [] \<or> ?D = []"
    using that by (simp add: calculateBestDepartment_empty)
  have positive: "hasTotal ?D emps (bestDepartment ?r)
    \<and> (\<forall>d. hasTotal ?D emps d \<longrightarrow>
           sumOfMonthlyPoints add emps d \<le> sumOfMonthlyPoints add emps (bestDepartment ?r))
    \<and> bestDepartmentPoints ?r = Math_round (sumOfMonthlyPoints add emps (bestDepartment ?r))"
    if ne: "emps \<noteq> []" "?D \<noteq> []"
      and pos: "\<exists>d. hasTotal ?D emps d \<and> 0 < sumOfMonthlyPoints add emps d"
  proof -
    have "0 < mx"
      using pos bp(1) by fastforce
    then have mx: "mx \<noteq> 0" by simp
    then have best: "bestDepartment ?r = bd"
      using calculateBestDepartment_nonempty(2) [OF ne f1 f2] bp(4) by simp
    have pts: "bestDepartmentPoints ?r = Math_round mx"
      by (rule calculateBestDepartment_nonempty(1) [OF ne f1 f2])
    show ?thesis
      unfolding best pts using bp(1) bp(4) [OF mx] by simp
  qed
  have nonpositive: "bestDepartmentPoints ?r = 0
    \<and> ((\<forall>e\<in>set emps. falsy (department e)) \<longrightarrow> bestDepartment ?r = ''N/A'')
    \<and> ((\<exists>e\<in>set emps. \<not> falsy (department e)) \<longrightarrow>
         bestDepartment ?r \<noteq> []
       \<and> Some (bestDepartment ?r) \<in> department ` set emps
       \<and> (\<forall>d. d \<noteq> [] \<longrightarrow> headcount emps d \<le> headcount emps (bestDepartment ?r)))"
    if ne: "emps \<noteq> []" "?D \<noteq> []"
      and z: "\<forall>d. hasTotal ?D emps d \<longrightarrow> sumOfMonthlyPoints add emps d \<le> 0"
  proof -
    have mx: "mx = 0"
    proof (rule ccontr)
      assume n: "mx \<noteq> 0"
      then have "hasTotal ?D emps bd" "sumOfMonthlyPoints add emps bd = mx"
        using bp(4) by simp_all
      then have "mx \<le> 0" using z by blast
      with bp(2) n show False by simp
    qed
    then have bd: "bd = []"
      using bp(3) by simp
    note bh = best_by_headcount [OF f2 [unfolded bd]]
    have pts: "bestDepartmentPoints ?r = 0"
      using calculateBestDepartment_nonempty(1) [OF ne f1 f2] mx by simp
    have best: "bestDepartment ?r = (if bd2 = [] then ''N/A'' else bd2)"
      using calculateBestDepartment_nonempty(3) [OF ne f1 f2] mx by simp
    have "bestDepartment ?r = ''N/A''" if "\<forall>e\<in>set emps. falsy (department e)"
      using bh(1) [OF that] best by simp
    moreover have "bestDepartment ?r \<noteq> []
       \<and> Some (bestDepartment ?r) \<in> department ` set emps
       \<and> (\<forall>d. d \<noteq> [] \<longrightarrow> headcount emps d \<le> headcount emps (bestDepartment ?r))"
      if "\<exists>e\<in>set emps. \<not> falsy (department e)"
    proof -
      have "bestDepartment ?r = bd2"
        using bh(2) [OF that] best by simp
      then show ?thesis
        using bh(2) [OF that] by blast
    qed
    ultimately show ?thesis
      using pts by blast
  qed
  show ?thesis
    using empty positive nonpositive by blast
qed

lemma scenarioPoints_sums:
  "sumOfMonthlyPoints (+) scenarioPoints ''Engineering'' = 500"
  "sumOfMonthlyPoints (+) scenarioPoints ''Sales'' = 100"
  by (simp_all add: sumOfMonthlyPoints_def scenarioPoints_def mkEmployee_def)

lemma scenarioPoints_hasTotal:
  "hasTotal (departments (mkDashboard [''Engineering'', ''Sales''])) scenarioPoints d
   \<longleftrightarrow> d = ''Engineering'' \<or> d = ''Sales''"
  by (auto simp add: hasTotal_def mkDashboard_def scenarioPoints_def mkEmployee_def)

lemma scenarioNegative_sums:
  "sumOfMonthlyPoints (+) scenarioNegative ''A'' = - 5"
  "sumOfMonthlyPoints (+) scenarioNegative ''B'' = 0"
  by (simp_all add: sumOfMonthlyPoints_def scenarioNegative_def mkEmployee_def)

lemma scenarioNegative_hasTotal:
  "hasTotal (departments (mkDashboard [''A'', ''B''])) scenarioNegative d
   \<longleftrightarrow> d = ''A'' \<or> d = ''B''"
  by (auto simp add: hasTotal_def mkDashboard_def scenarioNegative_def mkEmployee_def)

lemma scenarioNegative_headcount:
  "headcount scenarioNegative ''A'' = 2" "headcount scenarioNegative ''B'' = 1"
  by (simp_all add: headcount_def scenarioNegative_def mkEmployee_def)

lemma scenarioNegative_carried:
  "Some d \<in> department ` set scenarioNegative \<longleftrightarrow> d = ''A'' \<or> d = ''B''"
  by (auto simp add: scenarioNegative_def mkEmployee_def)

theorem deptPoints_totals_and_best_witness:
  "Map_get (initDeptPoints (departments (mkDashboard [''Sales'']))) ''Sales'' = Some 0
   \<and> Map_get (deptPointsOf (+) (departments (mkDashboard [''Sales''])) scenarioUnlisted) ''Sales''
       = Some 50
   \<and> Map_get (deptPointsOf (+) (departments (mkDashboard [''Sales''])) scenarioUnlisted) ''Ghost''
       = Some 100
   \<and> Map_get (deptPointsOf (+) (departments (mkDashboard [''Sales''])) scenarioUnlisted) ''Other''
       = None
   \<and> (bestDepartment (calculateBestDepartment (+) (mkDashboard [''Sales'']) scenarioUnlisted)
        = ''Sales''
      \<or> bestDepartment (calculateBestDepartment (+) (mkDashboard [''Sales'']) scenarioUnlisted)
        = ''Ghost''
      \<or> bestDepartment (calculateBestDepartment (+) (mkDashboard [''Sales'']) scenarioUnlisted)
        = ''N/A'')"
proof -
  let ?dash = "mkDashboard [''Sales'']"
  note w = deptPoints_totals_and_best [of ?dash "(+)" scenarioUnlisted]
  have names: "name ` set (departments ?dash) = {''Sales''}"
    by (simp add: mkDashboard_def)
  have carried: "Some d \<in> department ` set scenarioUnlisted \<longleftrightarrow> d = ''Sales'' \<or> d = ''Ghost''"
    for d
    by (auto simp add: scenarioUnlisted_def mkEmployee_def)
  have sums: "sumOfMonthlyPoints (+) scenarioUnlisted ''Sales'' = 50"
    "sumOfMonthlyPoints (+) scenarioUnlisted ''Ghost'' = 100"
    by (simp_all add: sumOfMonthlyPoints_def scenarioUnlisted_def mkEmployee_def)
  have "Map_get (initDeptPoints (departments ?dash)) ''Sales'' = Some 0"
    using w [THEN conjunct1, THEN bspec, of "''Sales''"] names by simp
  moreover have "Map_get (deptPointsOf (+) (departments ?dash) scenarioUnlisted) ''Sales''
       = Some 50"
    using w [THEN conjunct2, THEN conjunct1, THEN spec, of "''Sales''"]
    by (simp add: names carried sums)
  moreover have "Map_get (deptPointsOf (+) (departments ?dash) scenarioUnlisted) ''Ghost''
       = Some 100"
    using w [THEN conjunct2, THEN conjunct1, THEN spec, of "''Ghost''"]
    by (simp add: names carried sums)
  moreover have "Map_get (deptPointsOf (+) (departments ?dash) scenarioUnlisted) ''Other''
       = None"
    using w [THEN conjunct2, THEN conjunct1, THEN spec, of "''Other''"]
    by (simp add: names carried)
  moreover have "bestDepartment (calculateBestDepartment (+) ?dash scenarioUnlisted) = ''Sales''
      \<or> bestDepartment (calculateBestDepartment (+) ?dash scenarioUnlisted) = ''Ghost''
      \<or> bestDepartment (calculateBestDepartment (+) ?dash scenarioUnlisted) = ''N/A''"
    using w [THEN conjunct2, THEN conjunct2] unfolding names carried by blast
  ultimately show ?thesis by blast
qed

theorem unknown_department_best_counterexample:
  "map name (departments (mkDashboard [''Sales''])) = [''Sales'']
   \<and> deptPointsOf (+) (departments (mkDashboard [''Sales''])) scenarioUnlisted
     = [(''Sales'', 50), (''Ghost'', 100)]
   \<and> bestDepartment (calculateBestDepartment (+) (mkDashboard [''Sales'']) scenarioUnlisted)
     = ''Ghost''
   \<and> bestDepartmentPoints (calculateBestDepartment (+) (mkDashboard [''Sales'']) scenarioUnlisted)
     = 100"
  by (simp add: calculateBestDepartment_def deptPointsOf_def initDeptPoints_def
      addEmployeePoints_def pickGreater_def mkDashboard_def scenarioUnlisted_def
      mkEmployee_def Map_get_def Let_def)

theorem calculateBestDepartment_selection_witness:
  "bestDepartment (calculateBestDepartment (+) (mkDashboard []) scenarioPoints) = ''N/A''
   \<and> bestDepartmentPoints (calculateBestDepartment (+) (mkDashboard []) scenarioPoints) = 0
   \<and> bestDepartment
       (calculateBestDepartment (+) (mkDashboard [''Engineering'', ''Sales'']) scenarioPoints)
       = ''Engineering''
   \<and> bestDepartmentPoints
       (calculateBestDepartment (+) (mkDashboard [''Engineering'', ''Sales'']) scenarioPoints)
       = 500
   \<and> bestDepartment (calculateBestDepartment (+) (mkDashboard [''A'', ''B'']) scenarioNegative)
       = ''A''
   \<and> bestDepartmentPoints (calculateBestDepartment (+) (mkDashboard [''A'', ''B'']) scenarioNegative)
       = 0"
proof -
  let ?none = "mkDashboard []"
  let ?p = "mkDashboard [''Engineering'', ''Sales'']"
  let ?n = "mkDashboard [''A'', ''B'']"
  let ?bp = "bestDepartment (calculateBestDepartment (+) ?p scenarioPoints)"
  let ?bn = "bestDepartment (calculateBestDepartment (+) ?n scenarioNegative)"
  have ne: "scenarioPoints \<noteq> []" "departments ?p \<noteq> []"
    "scenarioNegative \<noteq> []" "departments ?n \<noteq> []" "departments ?none = []"
    by (simp_all add: scenarioPoints_def scenarioNegative_def mkDashboard_def)
  \<comment> \<open>an empty department list\<close>
  have a: "bestDepartment (calculateBestDepartment (+) ?none scenarioPoints) = ''N/A''
         \<and> bestDepartmentPoints (calculateBestDepartment (+) ?none scenarioPoints) = 0"
    using calculateBestDepartment_selection
      [where add = "(+)" and emps = scenarioPoints and this = ?none, THEN conjunct1] ne(5)
    by simp
  \<comment> \<open>a positive running total\<close>
  have "\<exists>d. hasTotal (departments ?p) scenarioPoints d
            \<and> 0 < sumOfMonthlyPoints (+) scenarioPoints d"
    by (rule exI [of _ "''Engineering''"])
      (simp add: scenarioPoints_hasTotal scenarioPoints_sums)
  with calculateBestDepartment_selection
    [where add = "(+)" and emps = scenarioPoints and this = ?p,
      THEN conjunct2, THEN conjunct1] ne(1,2)
  have ht: "hasTotal (departments ?p) scenarioPoints ?bp"
    and top: "\<forall>d. hasTotal (departments ?p) scenarioPoints d \<longrightarrow>
           sumOfMonthlyPoints (+) scenarioPoints d \<le> sumOfMonthlyPoints (+) scenarioPoints ?bp"
    and pts: "bestDepartmentPoints (calculateBestDepartment (+) ?p scenarioPoints)
               = Math_round (sumOfMonthlyPoints (+) scenarioPoints ?bp)"
    by blast+
  have "500 \<le> sumOfMonthlyPoints (+) scenarioPoints ?bp"
    using top [rule_format, of "''Engineering''"]
    by (simp add: scenarioPoints_hasTotal scenarioPoints_sums)
  moreover have "?bp = ''Engineering'' \<or> ?bp = ''Sales''"
    using ht by (simp add: scenarioPoints_hasTotal)
  ultimately have b: "?bp = ''Engineering''"
    by (auto simp add: scenarioPoints_sums)
  have b': "bestDepartmentPoints (calculateBestDepartment (+) ?p scenarioPoints) = 500"
    using pts unfolding b by (simp add: scenarioPoints_sums)
  \<comment> \<open>no positive running total, one of them negative\<close>
  have "\<forall>d. hasTotal (departments ?n) scenarioNegative d \<longrightarrow>
            sumOfMonthlyPoints (+) scenarioNegative d \<le> 0"
    by (auto simp add: scenarioNegative_hasTotal scenarioNegative_sums)
  with calculateBestDepartment_selection
    [where add = "(+)" and emps = scenarioNegative and this = ?n,
      THEN conjunct2, THEN conjunct2] ne(3,4)
  have z: "bestDepartmentPoints (calculateBestDepartment (+) ?n scenarioNegative) = 0"
    and c: "(\<exists>e\<in>set scenarioNegative. \<not> falsy (department e)) \<longrightarrow>
         Some ?bn \<in> department ` set scenarioNegative
       \<and> (\<forall>d. d \<noteq> [] \<longrightarrow> headcount scenarioNegative d \<le> headcount scenarioNegative ?bn)"
    by blast+
  have "\<exists>e\<in>set scenarioNegative. \<not> falsy (department e)"
    by (simp add: scenarioNegative_def mkEmployee_def)
  with c have c1: "Some ?bn \<in> department ` set scenarioNegative"
    and c2: "headcount scenarioNegative ''A'' \<le> headcount scenarioNegative ?bn"
    by simp_all
  from c1 have "?bn = ''A'' \<or> ?bn = ''B''"
    by (simp add: scenarioNegative_carried)
  then have d: "?bn = ''A''"
  proof
    assume s: "?bn = ''B''"
    from c2 show ?thesis
      unfolding s by (simp add: scenarioNegative_headcount)
  qed
  from a b b' z d show ?thesis
    by simp
qed

theorem fallback_selection_counterexample:
  "deptPointsOf (+) (departments (mkDashboard [''Engineering'', ''Sales''])) scenarioNoDepartment
     = [(''Engineering'', 0), (''Sales'', 0)]
   \<and> bestDepartment (calculateBestDepartment (+) (mkDashboard [''Engineering'', ''Sales''])
        scenarioNoDepartment) = ''N/A''
   \<and> deptPointsOf (+) (departments (mkDashboard [''A'', ''B''])) scenarioNegative
     = [(''A'', - 5), (''B'', 0)]
   \<and> bestDepartment (calculateBestDepartment (+) (mkDashboard [''A'', ''B'']) scenarioNegative)
     = ''A''
   \<and> bestDepartmentPoints (calculateBestDepartment (+) (mkDashboard [''A'', ''B''])
        scenarioNegative) = 0"
  by (simp add: calculateBestDepartment_def deptPointsOf_def initDeptPoints_def
      addEmployeePoints_def pickGreater_def deptEmployeeCountsOf_def countEmployee_def
      mkDashboard_def scenarioNoDepartment_def scenarioNegative_def mkEmployee_def Map_get_def
      Let_def)

lemma scenarioHeadcount_best:
  "bestDepartment (calculateBestDepartment (+) (mkDashboard [''Support'', ''Design''])
      scenarioHeadcount) = ''Design''
   \<and> bestDepartmentPoints (calculateBestDepartment (+) (mkDashboard [''Support'', ''Design''])
      scenarioHeadcount) = 0"
  by (simp add: calculateBestDepartment_def deptPointsOf_def initDeptPoints_def
      addEmployeePoints_def pickGreater_def deptEmployeeCountsOf_def countEmployee_def
      mkDashboard_def scenarioHeadcount_def mkEmployee_def Map_get_def Let_def)

end
